theory Spec2Isabelle
  imports Complex_Main "HOL-Library.Word"
begin

section \<open>Multi-channel narrowband demodulator: scan\_record\_nfm.py\<close>

text \<open>
  The embedding follows \<^verbatim>\<open>scan_record_nfm.py\<close>. Python floats and numpy float64 values
  are idealised as \<^typ>\<open>real\<close> (complex128 as \<^typ>\<open>complex\<close>): rounding and infinities are
  not represented, and nan only where the signal strength of an empty batch produces it.
  Where the source raises, the model returns \<open>Inl\<close> of a \<open>py_error\<close>. Calls to
  \<^verbatim>\<open>logging\<close> inside the demodulator and the scanner change no program state and are
  left out; \<^verbatim>\<open>ingest_data\<close> keeps the record it logs when a read returns nothing, and
  its call of \<^verbatim>\<open>logging.info\<close> that raises is modelled as raising. Threads are
  represented by their queues: the ingest loop appends to them, and a worker is a
  function of the content of its queue.
\<close>

subsection \<open>Process-wide configuration and constants\<close>

datatype py_error =
    ValueError_concatenate    \<comment> \<open>numpy.concatenate of an empty tuple\<close>
  | ValueError_broadcast      \<comment> \<open>operands could not be broadcast together\<close>
  | ValueError_math_domain    \<comment> \<open>math.log10 of a value that is not positive\<close>
  | ValueError_empty          \<comment> \<open>numpy.correlate, max or argmax of an empty array\<close>
  | TypeError_logging_kwarg   \<comment> \<open>logging.info called with the keyword file\<close>
  | ZeroDivisionError         \<comment> \<open>division or modulo by zero\<close>
  | IndexError                \<comment> \<open>index out of bounds\<close>
  | NameError                 \<comment> \<open>a local variable read before assignment\<close>
  | AssertionError            \<comment> \<open>a failed assert statement\<close>

record config =
  CENTER :: int
  INPUT_RATE :: int
  STEP :: int
  IF_BANDWIDTH :: int
  monitor_strength :: bool
  use_autocorrelation :: bool
  debug_autocorrelation :: bool
  am :: bool

definition N_NOISE :: nat where "N_NOISE = 5"

definition INGEST_SIZE :: "config \<Rightarrow> int" where
  "INGEST_SIZE cfg = INPUT_RATE cfg div 10"

definition IF_RATE :: int where "IF_RATE = 25000"
definition AUDIO_BANDWIDTH :: int where "AUDIO_BANDWIDTH = 4000"
definition AUDIO_RATE :: int where "AUDIO_RATE = 12500"
definition THRESHOLD_SNR :: real where "THRESHOLD_SNR = 15"
definition THRESHOLD_AC :: real where "THRESHOLD_AC = 0.4"
definition HISTERESIS_UP :: int where "HISTERESIS_UP = - 3"
definition HISTERESIS_DOWN :: int where "HISTERESIS_DOWN = 3"
definition CHANNEL_SPACING :: int where "CHANNEL_SPACING = 12500"
definition THRESH_FACTOR :: real where "THRESH_FACTOR = 9"

definition silence :: "real list" where
  "silence = replicate (nat (IF_RATE div 10)) 0"

subsection \<open>The demodulator object\<close>

text \<open>
  The module \<^verbatim>\<open>filters\<close> is imported by the program and is not part of this file:
  its constructors and the \<^verbatim>\<open>feed\<close> method are parameters of the model, over a
  type \<open>'f\<close> of filter objects.
\<close>

record 'f filters =
  low_pass :: "real \<Rightarrow> real \<Rightarrow> real \<Rightarrow> 'f"
  high_pass :: "real \<Rightarrow> real \<Rightarrow> real \<Rightarrow> 'f"
  decimator :: "int \<Rightarrow> 'f"
  feed_complex :: "'f \<Rightarrow> complex list \<Rightarrow> complex list \<times> 'f"
  feed_real :: "'f \<Rightarrow> real list \<Rightarrow> real list \<times> 'f"

text \<open>
  The fields of \<^verbatim>\<open>Demodulator\<close>. \<open>wav\<close> is \<open>None\<close> or the samples written to the
  open file so far; \<open>queue\<close> holds the batches handed to the worker, \<open>None\<close> being
  the termination sentinel.
\<close>

record 'f demodulator =
  freq :: int
  wav :: "int list option"
  histeresis :: int
  old_histeresis :: int
  is_recording :: bool
  memory_up :: "real list list"
  insert_timestamp :: bool
  lower_freq :: int
  higher_freq :: int
  dbfs_avg :: "real option"
  dbfs_off :: real
  display_count :: int
  ac_avg :: "real option"
  if_freq :: int
  carrier_table :: "complex list"
  if_period :: int
  if_phase :: int
  last_if_sample :: "complex list"
  if_filter :: 'f
  if_decimator :: 'f
  audio_filter :: 'f
  audio_decimator :: 'f
  dc_filter :: 'f
  queue :: "complex list option list"

text \<open>
  One entry of the carrier table:
  \<^verbatim>\<open>cmath.exp((0-1j) * tau * t * (self.if_freq / INPUT_RATE))\<close>.
  Here it is the exact exponential. The table the code holds is made of doubles: two of
  its entries a whole number of periods apart agree only up to rounding, where the exact
  values are equal. The property of the mixer proved below does not rely on the table
  repeating exactly: it is stated for the table the demodulator is given.
\<close>

definition carrier_sample :: "config \<Rightarrow> int \<Rightarrow> nat \<Rightarrow> complex" where
  "carrier_sample cfg if_frequency t =
     exp ((0 - \<i>) * of_real (2 * pi) * of_nat t *
          of_real (real_of_int if_frequency / real_of_int (INPUT_RATE cfg)))"

text \<open>\<^verbatim>\<open>Demodulator.__init__\<close>. Python's \<^verbatim>\<open>range(0, n)\<close> is empty for \<open>n \<le> 0\<close>.\<close>

definition Demodulator :: "'f filters \<Rightarrow> config \<Rightarrow> int \<Rightarrow> 'f demodulator" where
  "Demodulator flt cfg f =
     \<lparr> freq = f,
       wav = None,
       histeresis = HISTERESIS_UP,
       old_histeresis = 0,
       is_recording = False,
       memory_up = [],
       insert_timestamp = False,
       lower_freq = f - CHANNEL_SPACING div 2,
       higher_freq = f + CHANNEL_SPACING div 2,
       dbfs_avg = None,
       dbfs_off = 0,
       display_count = 0,
       ac_avg = None,
       if_freq = f - CENTER cfg,
       carrier_table = map (carrier_sample cfg (f - CENTER cfg)) [0..<nat (INGEST_SIZE cfg * 2)],
       if_period = INPUT_RATE cfg div STEP cfg,
       if_phase = 0,
       last_if_sample = [],
       if_filter = low_pass flt (real_of_int (INPUT_RATE cfg)) (real_of_int (IF_BANDWIDTH cfg) / 2) 48,
       if_decimator = decimator flt (INPUT_RATE cfg div IF_RATE),
       audio_filter = low_pass flt (real_of_int IF_RATE) (real_of_int AUDIO_BANDWIDTH) 24,
       audio_decimator = decimator flt (IF_RATE div AUDIO_RATE),
       dc_filter = high_pass flt (real_of_int AUDIO_RATE) 100 6,
       queue = [] \<rparr>"

subsection \<open>Squelch voters\<close>

text \<open>\<^verbatim>\<open>Demodulator.vote_by_dbfs\<close>: the vote and the updated object.\<close>

definition vote_by_dbfs :: "real \<Rightarrow> 'f demodulator \<Rightarrow> int \<times> 'f demodulator" where
  "vote_by_dbfs dbfs self =
     (let vote = (if dbfs > dbfs_off self + THRESHOLD_SNR then 1 else - 1)
      in if \<not> is_recording self \<and> vote < 0
         then (if dbfs < dbfs_off self
               then (vote, self\<lparr>dbfs_off := 0.05 * dbfs + 0.95 * dbfs_off self\<rparr>)
               else (vote, self\<lparr>dbfs_off := 0.005 * dbfs + 0.995 * dbfs_off self\<rparr>))
         else (vote, self))"

text \<open>
  \<^verbatim>\<open>numpy.correlate(a, v, 'same')\<close> on real arrays of one length \<open>N\<close>: entry \<open>i\<close> is the
  correlation at lag \<open>i - N div 2\<close>, summed over the overlapping indices.
\<close>

definition correlate_same :: "real list \<Rightarrow> real list \<Rightarrow> real list" where
  "correlate_same a v =
     (let N = length a
      in map (\<lambda>i. sum_list (map (\<lambda>n.
                 let j = int n + int i - int (N div 2)
                 in if 0 \<le> j \<and> j < int N then a ! nat j * v ! n else 0) [0..<N]))
           [0..<N])"

text \<open>
  \<^verbatim>\<open>Demodulator.vote_by_autocorrelation\<close>. numpy refuses an empty array. When every
  sample is zero numpy divides zero by zero and the metric is nan, which compares false
  with the threshold; the model's metric is then \<open>0\<close>, with the same vote.
\<close>

definition vote_by_autocorrelation ::
    "real list \<Rightarrow> 'f demodulator \<Rightarrow> py_error + (int \<times> 'f demodulator)" where
  "vote_by_autocorrelation output_raw self =
     (if output_raw = [] then Inl ValueError_empty
      else
        let ac_r = map abs (correlate_same output_raw output_raw);
            ac_metric = sum_list ac_r / Max (set ac_r) / real (length output_raw);
            self1 = (case ac_avg self of
                       None \<Rightarrow> self\<lparr>ac_avg := Some ac_metric\<rparr>
                     | Some avg \<Rightarrow> self\<lparr>ac_avg := Some (0.2 * ac_metric + 0.8 * avg)\<rparr>);
            vote = (if ac_metric > THRESHOLD_AC then 1 else - 1)
        in Inr (vote, self1))"

subsection \<open>Squelch state machine\<close>

text \<open>The voter selected by the command line, as \<^verbatim>\<open>squelch\<close> calls it.\<close>

definition cast_vote ::
    "config \<Rightarrow> real \<Rightarrow> real list \<Rightarrow> 'f demodulator \<Rightarrow> py_error + (int \<times> 'f demodulator)" where
  "cast_vote cfg dbfs output_raw self =
     (if use_autocorrelation cfg then vote_by_autocorrelation output_raw self
      else Inr (vote_by_dbfs dbfs self))"

text \<open>
  \<^verbatim>\<open>Demodulator.squelch\<close>: returns the pair (squelched, samples to write) and the
  updated object. \<^verbatim>\<open>numpy.concatenate\<close> raises on an empty \<^verbatim>\<open>memory_up\<close>.
\<close>

definition squelch ::
    "config \<Rightarrow> real \<Rightarrow> real list \<Rightarrow> 'f demodulator
       \<Rightarrow> py_error + ((bool \<times> real list) \<times> 'f demodulator)" where
  "squelch cfg dbfs output_raw self =
     (case cast_vote cfg dbfs output_raw (self\<lparr>old_histeresis := histeresis self\<rparr>) of
        Inl e \<Rightarrow> Inl e
      | Inr (vote, self1) \<Rightarrow>
          let self2 = self1\<lparr>histeresis :=
                        min HISTERESIS_DOWN (max HISTERESIS_UP (histeresis self1 + vote))\<rparr>
          in if \<not> is_recording self2 then
               let self3 = (if vote > 0
                            then self2\<lparr>memory_up := memory_up self2 @ [output_raw]\<rparr>
                            else self2\<lparr>memory_up := []\<rparr>)
               in if histeresis self3 \<ge> 0 then
                    (if memory_up self3 = [] then Inl ValueError_concatenate
                     else Inr ((False, concat (memory_up self3)),
                               self3\<lparr>is_recording := True, insert_timestamp := True,
                                     histeresis := HISTERESIS_DOWN, memory_up := []\<rparr>))
                  else Inr ((\<not> is_recording self3, output_raw), self3)
             else if histeresis self2 \<le> 0 then
               Inr ((False, silence),
                    self2\<lparr>is_recording := False, histeresis := HISTERESIS_UP,
                          memory_up := []\<rparr>)
             else Inr ((\<not> is_recording self2, output_raw), self2))"

text \<open>The vote that \<^verbatim>\<open>squelch\<close> casts for a batch in a given state.\<close>

definition vote_of :: "config \<Rightarrow> real \<Rightarrow> real list \<Rightarrow> 'f demodulator \<Rightarrow> py_error + int" where
  "vote_of cfg dbfs output_raw self =
     map_sum id fst (cast_vote cfg dbfs output_raw (self\<lparr>old_histeresis := histeresis self\<rparr>))"

text \<open>Consecutive batches through \<^verbatim>\<open>squelch\<close>, and the votes cast on the way.\<close>

fun run_squelch ::
    "config \<Rightarrow> (real \<times> real list) list \<Rightarrow> 'f demodulator \<Rightarrow> py_error + 'f demodulator" where
  "run_squelch cfg [] self = Inr self"
| "run_squelch cfg ((dbfs, raw) # bs) self =
     (case squelch cfg dbfs raw self of
        Inl e \<Rightarrow> Inl e
      | Inr (_, self') \<Rightarrow> run_squelch cfg bs self')"

fun votes_cast ::
    "config \<Rightarrow> (real \<times> real list) list \<Rightarrow> 'f demodulator \<Rightarrow> (py_error + int) list" where
  "votes_cast cfg [] self = []"
| "votes_cast cfg ((dbfs, raw) # bs) self =
     vote_of cfg dbfs raw self #
       (case squelch cfg dbfs raw self of
          Inl e \<Rightarrow> []
        | Inr (_, self') \<Rightarrow> votes_cast cfg bs self')"

subsection \<open>Carrier mixer and signal strength\<close>

text \<open>
  A Python slice \<^verbatim>\<open>xs[a:b]\<close>: a negative bound counts from the end, and both bounds
  are cut to the length of the list.
\<close>

definition py_slice :: "'a list \<Rightarrow> int \<Rightarrow> int \<Rightarrow> 'a list" where
  "py_slice xs a b =
     (let n = int (length xs);
          lo = (if a < 0 then max (a + n) 0 else min a n);
          hi = (if b < 0 then max (b + n) 0 else min b n)
      in take (nat (hi - lo)) (drop (nat lo) xs))"

text \<open>
  The product of two one-dimensional numpy arrays: elementwise for equal lengths, an
  array of length one is broadcast, any other pair of lengths raises.
\<close>

definition np_multiply :: "complex list \<Rightarrow> complex list \<Rightarrow> py_error + complex list" where
  "np_multiply a b =
     (if length a = length b then Inr (map2 (*) a b)
      else if length b = 1 then Inr (map (\<lambda>x. x * hd b) a)
      else if length a = 1 then Inr (map (\<lambda>y. hd a * y) b)
      else Inl ValueError_broadcast)"

text \<open>
  The mixer of \<^verbatim>\<open>Demodulator._ingest\<close>: the slice of the carrier table at the current
  phase, the phase advanced modulo \<^verbatim>\<open>if_period\<close>, and the product with the samples.
\<close>

definition mix ::
    "complex list \<Rightarrow> 'f demodulator \<Rightarrow> py_error + (complex list \<times> 'f demodulator)" where
  "mix iqsamples self =
     (let carrier = py_slice (carrier_table self) (if_phase self)
                      (if_phase self + int (length iqsamples))
      in if if_period self = 0 then Inl ZeroDivisionError
         else
           let self1 = self\<lparr>if_phase :=
                         (if_phase self + int (length iqsamples)) mod if_period self\<rparr>
           in case np_multiply iqsamples carrier of
                Inl e \<Rightarrow> Inl e
              | Inr ifsamples \<Rightarrow> Inr (ifsamples, self1))"


text \<open>
  A numpy scalar that is either nan or a number. numpy divides zero by zero without
  raising and the result is nan; \<^verbatim>\<open>math.log10\<close> maps nan to nan and raises on a
  number that is not positive.
\<close>

datatype npfloat = NaN | Finite real

definition signal_strength :: "complex list \<Rightarrow> npfloat" where
  "signal_strength ifsamples =
     (if ifsamples = [] then NaN
      else Finite (sum_list (map cmod ifsamples) / real (length ifsamples)))"

definition math_log10 :: "npfloat \<Rightarrow> py_error + npfloat" where
  "math_log10 x =
     (case x of
        NaN \<Rightarrow> Inr NaN
      | Finite r \<Rightarrow> if r \<le> 0 then Inl ValueError_math_domain else Inr (Finite (log 10 r)))"

definition np_scale :: "real \<Rightarrow> npfloat \<Rightarrow> npfloat" where
  "np_scale c x = (case x of NaN \<Rightarrow> NaN | Finite r \<Rightarrow> Finite (c * r))"

text \<open>
  The first part of \<^verbatim>\<open>Demodulator._ingest\<close>, up to the signal strength: mixing, the
  IF filter and decimator, the sample kept from the previous batch, and
  \<^verbatim>\<open>dbfs = 20 * math.log10(strength)\<close>. It returns the IF samples, the strength and
  \<^verbatim>\<open>dbfs\<close>.
\<close>

definition ingest_strength ::
    "'f filters \<Rightarrow> complex list \<Rightarrow> 'f demodulator
       \<Rightarrow> py_error + ((complex list \<times> npfloat \<times> npfloat) \<times> 'f demodulator)" where
  "ingest_strength flt iqsamples self =
     (case mix iqsamples self of
        Inl e \<Rightarrow> Inl e
      | Inr (mixed, self1) \<Rightarrow>
          let (filtered, f1) = feed_complex flt (if_filter self1) mixed;
              (decimated, f2) = feed_complex flt (if_decimator self1) filtered;
              ifsamples = last_if_sample self1 @ decimated;
              self2 = self1\<lparr>if_filter := f1, if_decimator := f2,
                            last_if_sample := py_slice ifsamples (- 1) (int (length ifsamples))\<rparr>;
              strength = signal_strength ifsamples
          in case math_log10 strength of
               Inl e \<Rightarrow> Inl e
             | Inr l \<Rightarrow> Inr ((ifsamples, strength, np_scale 20 l), self2))"

subsection \<open>Timestamp watermark and the audio path\<close>

text \<open>
  A \<^verbatim>\<open>datetime\<close> value, and the two library operations \<^verbatim>\<open>gen_timestamp\<close> uses:
  \<^verbatim>\<open>datetime.utcnow()\<close> and the subtraction of a \<^verbatim>\<open>timedelta\<close>, here a number of
  microseconds. The calendar arithmetic belongs to the library and is a parameter.
\<close>

record datetime =
  year :: int
  month :: int
  day :: int
  hour :: int
  minute :: int
  second :: int
  microsecond :: int

record clock =
  utcnow :: datetime
  minus_microseconds :: "datetime \<Rightarrow> int \<Rightarrow> datetime"

text \<open>
  \<^verbatim>\<open>datetime.timedelta(seconds=x)\<close> keeps whole microseconds, rounding halves to even.
\<close>

definition timedelta_seconds :: "real \<Rightarrow> int" where
  "timedelta_seconds x =
     (let us = x * 1000000; f = \<lfloor>us\<rfloor>; r = us - of_int f
      in if r < 1 / 2 then f else if r > 1 / 2 then f + 1
         else if even f then f else f + 1)"

text \<open>\<^verbatim>\<open>Demodulator.gen_timestamp\<close>.\<close>

definition gen_timestamp :: "clock \<Rightarrow> int list \<Rightarrow> int list" where
  "gen_timestamp clk output =
     (let offset = timedelta_seconds (real (length output) / real_of_int AUDIO_RATE);
          now = minus_microseconds clk (utcnow clk) offset
      in [0x81, 0x82]
         @ [127 - 5 + (year now mod 10000) div 1000,
            127 - 5 + (year now mod 1000) div 100,
            127 - 5 + (year now mod 100) div 10,
            127 - 5 + (year now mod 10) div 1,
            127 - 5 + month now,
            127 - 5 + day now div 10,
            127 - 5 + day now mod 10,
            127 - 5 + hour now div 10,
            127 - 5 + hour now mod 10,
            127 - 5 + minute now div 10,
            127 - 5 + minute now mod 10,
            127 - 5 + second now div 10,
            127 - 5 + second now mod 10,
            127 - 5 + (microsecond now mod 1000000) div 100000,
            127 - 5 + (microsecond now mod 100000) div 10000]
         @ [0x83, 0x84])"

text \<open>
  The audio chain of \<^verbatim>\<open>_ingest\<close>: audio filter, decimator, DC filter, clipping to
  \<open>[-0.999, 0.999]\<close>, scaling by 32767 and \<^verbatim>\<open>astype(int)\<close>, which truncates towards
  zero.
\<close>

definition np_clip :: "real \<Rightarrow> real \<Rightarrow> real \<Rightarrow> real" where
  "np_clip x lo hi = min hi (max lo x)"

definition astype_int :: "real \<Rightarrow> int" where
  "astype_int x = (if 0 \<le> x then \<lfloor>x\<rfloor> else \<lceil>x\<rceil>)"

definition audio_chain ::
    "'f filters \<Rightarrow> real list \<Rightarrow> 'f demodulator \<Rightarrow> int list \<times> 'f demodulator" where
  "audio_chain flt output_raw self =
     (let (filtered, f1) = feed_real flt (audio_filter self) output_raw;
          (decimated, f2) = feed_real flt (audio_decimator self) filtered;
          (blocked, f3) = feed_real flt (dc_filter self) decimated;
          clipped = map (\<lambda>x. np_clip x (- 0.999) 0.999) blocked
      in (map (\<lambda>x. astype_int (x * 32767)) clipped,
          self\<lparr>audio_filter := f1, audio_decimator := f2, dc_filter := f3\<rparr>))"

text \<open>
  The second part of \<^verbatim>\<open>Demodulator._ingest\<close>, from the call of \<^verbatim>\<open>squelch\<close> to
  \<^verbatim>\<open>writeframes\<close>. Every value written lies in the 16-bit range, so
  \<^verbatim>\<open>struct.pack\<close> does not raise; the file is represented by its samples, and
  \<^verbatim>\<open>create_wav\<close> by starting from the empty file. The lines of \<^verbatim>\<open>_ingest\<close> between
  the two parts (the running average \<^verbatim>\<open>dbfs_avg\<close>, the display counter and the FM or AM
  discriminator that turns the IF samples into \<^verbatim>\<open>output_raw\<close>) are not modelled:
  \<open>dbfs\<close> and \<open>output_raw\<close> are arguments here.
\<close>

definition ingest_audio ::
    "'f filters \<Rightarrow> config \<Rightarrow> clock \<Rightarrow> real \<Rightarrow> real list \<Rightarrow> 'f demodulator
       \<Rightarrow> py_error + 'f demodulator" where
  "ingest_audio flt cfg clk dbfs output_raw self =
     (case squelch cfg dbfs output_raw self of
        Inl e \<Rightarrow> Inl e
      | Inr ((squelched, raw), self1) \<Rightarrow>
          if squelched then Inr (self1\<lparr>wav := None\<rparr>)
          else
            let (output, self2) = audio_chain flt raw self1;
                (frames, self3) =
                  (if insert_timestamp self2
                   then (gen_timestamp clk output @ output, self2\<lparr>insert_timestamp := False\<rparr>)
                   else (output, self2))
            in Inr (self3\<lparr>wav := Some ((case wav self3 of None \<Rightarrow> [] | Some w \<Rightarrow> w) @ frames)\<rparr>))"

text \<open>
  The layout of the watermark in the words of the specification: decimal digit \<open>k\<close> of
  a number, the code \<open>127 - 5 + digit\<close>, and the sequence of values.
\<close>

definition decimal_digit :: "int \<Rightarrow> nat \<Rightarrow> int" where
  "decimal_digit n k = (n div 10 ^ k) mod 10"

definition encode_digit :: "int \<Rightarrow> int" where
  "encode_digit d = 127 - 5 + d"

definition watermark_layout :: "datetime \<Rightarrow> int list" where
  "watermark_layout t =
     [0x81, 0x82]
     @ map encode_digit
         [decimal_digit (year t) 3, decimal_digit (year t) 2,
          decimal_digit (year t) 1, decimal_digit (year t) 0]
     @ [encode_digit (month t)]
     @ map encode_digit
         [decimal_digit (day t) 1, decimal_digit (day t) 0,
          decimal_digit (hour t) 1, decimal_digit (hour t) 0,
          decimal_digit (minute t) 1, decimal_digit (minute t) 0,
          decimal_digit (second t) 1, decimal_digit (second t) 0]
     @ map encode_digit [decimal_digit (microsecond t) 5, decimal_digit (microsecond t) 4]
     @ [0x83, 0x84]"

text \<open>The ranges of the fields of a \<^verbatim>\<open>datetime\<close>.\<close>

definition datetime_in_range :: "datetime \<Rightarrow> bool" where
  "datetime_in_range t \<longleftrightarrow>
     1 \<le> year t \<and> year t \<le> 9999 \<and> 1 \<le> month t \<and> month t \<le> 12
     \<and> 1 \<le> day t \<and> day t \<le> 31 \<and> 0 \<le> hour t \<and> hour t \<le> 23
     \<and> 0 \<le> minute t \<and> minute t \<le> 59 \<and> 0 \<le> second t \<and> second t \<le> 59
     \<and> 0 \<le> microsecond t \<and> microsecond t \<le> 999999"

subsection \<open>Reading the input stream\<close>

text \<open>
  Standard input is the list of bytes not yet read; \<^verbatim>\<open>sys.stdin.buffer.read(size)\<close>
  returns the next \<open>size\<close> bytes, fewer at the end of the stream, and all of them for
  the size \<open>-1\<close>. A size below \<open>-1\<close> is refused by the library with \<^verbatim>\<open>ValueError\<close>;
  \<open>stdin_read\<close> does not represent that and reads to the end there as well. The program
  passes \<open>2 * INGEST_SIZE\<close> and \<open>4 * INGEST_SIZE\<close>, which are negative only for a negative
  sample rate. \<open>records\<close> holds the log records written by \<^verbatim>\<open>logging\<close>.
\<close>

type_synonym byte = "8 word"

datatype log_record = LogError string | LogInfo string

record io_state =
  stdin :: "byte list"
  records :: "log_record list"

definition stdin_read :: "int \<Rightarrow> byte list \<Rightarrow> byte list \<times> byte list" where
  "stdin_read n bs = (if n < 0 then (bs, []) else (take (nat n) bs, drop (nat n) bs))"

text \<open>
  \<^verbatim>\<open>numpy.frombuffer(data, dtype=numpy.uint8)\<close>, minus 127.5, over 128.0, viewed as
  complex: consecutive pairs are the real and the imaginary part. \<^verbatim>\<open>ingest_data\<close>
  calls it on an even number of bytes only.
\<close>

fun iq_of_bytes :: "byte list \<Rightarrow> complex list" where
  "iq_of_bytes (i # q # bs) =
     Complex ((real (unat i) - 127.5) / 128.0) ((real (unat q) - 127.5) / 128.0) # iq_of_bytes bs"
| "iq_of_bytes bs = []"

text \<open>
  \<^verbatim>\<open>ingest_data\<close>. \<^verbatim>\<open>logging.info\<close> takes no keyword \<^verbatim>\<open>file\<close>: the call in the branch
  for an odd number of bytes raises \<^verbatim>\<open>TypeError\<close>, and the two assignments after it are
  not reached.
\<close>

definition ingest_data ::
    "int \<Rightarrow> byte list \<Rightarrow> io_state \<Rightarrow> py_error + ((complex list \<times> byte list) \<times> io_state)" where
  "ingest_data n remaining_data io =
     (let (data, rest) = stdin_read n (stdin io);
          io1 = io\<lparr>stdin := rest\<rparr>;
          io2 = (if data = []
                 then io1\<lparr>records := records io1 @
                        [LogError ''Something went wrong while reading data. Check if device is present.'']\<rparr>
                 else io1);
          data1 = remaining_data @ data
      in if length data1 mod 2 = 1 then Inl TypeError_logging_kwarg
         else Inr ((iq_of_bytes data1, remaining_data), io2))"

subsection \<open>Spectrum scanner\<close>

text \<open>
  \<^verbatim>\<open>scipy.signal.welch\<close> belongs to a library and is a parameter: from the samples and
  the sampling frequency to the bin frequencies and the power of each bin.
  \<^verbatim>\<open>numpy.log\<close> is the natural logarithm.
\<close>

type_synonym welch = "complex list \<Rightarrow> real \<Rightarrow> real list \<times> real list"

definition convert2hist :: "welch \<Rightarrow> config \<Rightarrow> complex list \<Rightarrow> real list \<times> real list" where
  "convert2hist welch cfg samples =
     (let (f, S) = welch samples (real_of_int (INPUT_RATE cfg) / 1000000)
      in (map (\<lambda>x. x + real_of_int (CENTER cfg) / 1000000) f, map ln S))"

definition read_samples_convert ::
    "welch \<Rightarrow> config \<Rightarrow> io_state \<Rightarrow> py_error + ((real list \<times> real list) \<times> io_state)" where
  "read_samples_convert welch cfg io =
     (case ingest_data (INGEST_SIZE cfg * 4) [] io of
        Inl e \<Rightarrow> Inl e
      | Inr ((samples, _), io1) \<Rightarrow> Inr (convert2hist welch cfg samples, io1))"

text \<open>
  \<^verbatim>\<open>numpy.mean\<close> and \<^verbatim>\<open>numpy.std\<close> (the population standard deviation). On an empty
  array numpy returns nan; the model's value there is \<open>0\<close>.
\<close>

definition np_mean :: "real list \<Rightarrow> real" where
  "np_mean xs = sum_list xs / real (length xs)"

definition np_std :: "real list \<Rightarrow> real" where
  "np_std xs = sqrt (np_mean (map (\<lambda>x. (abs (x - np_mean xs))\<^sup>2) xs))"

text \<open>
  The loop of \<^verbatim>\<open>get_average_noise\<close>: \<open>n\<close> more snapshots, the accumulated
  \<^verbatim>\<open>total_signal\<close>, and \<open>S\<close> as the last iteration left it (\<open>None\<close> before the
  first).
\<close>

fun noise_snapshots ::
    "welch \<Rightarrow> config \<Rightarrow> nat \<Rightarrow> real list \<Rightarrow> real list option \<Rightarrow> io_state
       \<Rightarrow> py_error + ((real list \<times> real list option) \<times> io_state)" where
  "noise_snapshots welch cfg 0 total_signal S io = Inr ((total_signal, S), io)"
| "noise_snapshots welch cfg (Suc n) total_signal S io =
     (case read_samples_convert welch cfg io of
        Inl e \<Rightarrow> Inl e
      | Inr ((_, S1), io1) \<Rightarrow> noise_snapshots welch cfg n (total_signal @ S1) (Some S1) io1)"

definition get_average_noise ::
    "welch \<Rightarrow> config \<Rightarrow> io_state \<Rightarrow> py_error + ((real \<times> real) \<times> io_state)" where
  "get_average_noise welch cfg io =
     (case noise_snapshots welch cfg N_NOISE [] None io of
        Inl e \<Rightarrow> Inl e
      | Inr ((total_signal, None), io1) \<Rightarrow> Inl NameError
      | Inr ((total_signal, Some S), io1) \<Rightarrow> Inr ((np_mean S, np_std S), io1))"

subsection \<open>The program state\<close>

text \<open>
  The module-level variables. The dictionary \<^verbatim>\<open>demodulators\<close> is a list of pairs in
  insertion order; \<open>out_freqs\<close> is the content of the scan log; \<open>fa_queue\<close> is the
  queue of the \<^verbatim>\<open>FrequencyAdder\<close>; \<open>sigint_after\<close> is the number of iterations of the
  ingest loop that complete before the terminal interrupt arrives, \<open>None\<close> if it never
  does.
\<close>

record 'f program =
  iostate :: io_state
  remaining_data :: "byte list"
  demodulators :: "(int \<times> 'f demodulator) list"
  threshold :: real
  out_freqs :: "(int \<times> real) list"
  fa_queue :: "complex list option list"
  sigint_after :: "nat option"

text \<open>\<^verbatim>\<open>d[k] = v\<close> on a dictionary: an existing key keeps its place.\<close>

fun dict_set :: "'k \<Rightarrow> 'v \<Rightarrow> ('k \<times> 'v) list \<Rightarrow> ('k \<times> 'v) list" where
  "dict_set k v [] = [(k, v)]"
| "dict_set k v ((k', v') # kvs) =
     (if k' = k then (k, v) # kvs else (k', v') # dict_set k v kvs)"

text \<open>\<^verbatim>\<open>Demodulator.is_within\<close>.\<close>

definition is_within :: "'f demodulator \<Rightarrow> int \<Rightarrow> bool" where
  "is_within self f \<longleftrightarrow> lower_freq self < f \<and> f \<le> higher_freq self"

text \<open>\<^verbatim>\<open>S.argmax()\<close>: the first index of the greatest entry; numpy refuses an empty array.\<close>

fun argmax_from :: "real list \<Rightarrow> nat \<Rightarrow> nat \<Rightarrow> real \<Rightarrow> nat" where
  "argmax_from [] i best_i best = best_i"
| "argmax_from (x # xs) i best_i best =
     (if x > best then argmax_from xs (Suc i) i x else argmax_from xs (Suc i) best_i best)"

definition argmax :: "real list \<Rightarrow> py_error + nat" where
  "argmax xs = (case xs of [] \<Rightarrow> Inl ValueError_empty | x # rest \<Rightarrow> Inr (argmax_from rest 1 0 x))"

text \<open>
  \<^verbatim>\<open>FrequencyAdder._ingest\<close>, on the program state it shares: it reads \<^verbatim>\<open>threshold\<close>,
  appends to the scan log and may insert into \<^verbatim>\<open>demodulators\<close>.
\<close>

definition fa_ingest ::
    "'f filters \<Rightarrow> welch \<Rightarrow> config \<Rightarrow> complex list \<Rightarrow> 'f program \<Rightarrow> py_error + 'f program" where
  "fa_ingest flt welch cfg iqsamples st =
     (let (f, S) = convert2hist welch cfg iqsamples
      in case argmax S of
           Inl e \<Rightarrow> Inl e
         | Inr max_ind \<Rightarrow>
             let power = S ! max_ind
             in if power < threshold st then Inr st
                else if length f \<le> max_ind then Inl IndexError
                else
                  let fq = astype_int (f ! max_ind * 1000000);
                      st1 = st\<lparr>out_freqs := out_freqs st @ [(fq, power)]\<rparr>;
                      in_modulators = list_ex (\<lambda>(k, demod). is_within demod fq) (demodulators st1)
                  in if \<not> in_modulators
                     then Inr (st1\<lparr>demodulators :=
                                 dict_set fq (Demodulator flt cfg fq) (demodulators st1)\<rparr>)
                     else Inr st1)"

subsection \<open>Start-up, ingest loop and shutdown\<close>

text \<open>
  The checks of the command line at the top of the module. \<^verbatim>\<open>a // b == a / b\<close> compares
  the floored quotient with the true quotient; a zero \<^verbatim>\<open>STEP\<close> or \<^verbatim>\<open>IF_BANDWIDTH\<close>
  divides by zero. \<open>None\<close> means that every check passes.
\<close>

definition py_exact :: "int \<Rightarrow> int \<Rightarrow> bool" where
  "py_exact a b \<longleftrightarrow> real_of_int (a div b) = real_of_int a / real_of_int b"

definition check_arguments :: "config \<Rightarrow> int list \<Rightarrow> py_error option" where
  "check_arguments cfg freqs =
     (if \<not> py_exact (INPUT_RATE cfg) IF_RATE then Some AssertionError
      else if \<not> py_exact IF_RATE AUDIO_RATE then Some AssertionError
      else if STEP cfg = 0 then Some ZeroDivisionError
      else if \<not> py_exact (INPUT_RATE cfg) (STEP cfg) then Some AssertionError
      else if \<not> list_all (\<lambda>f. py_exact \<bar>CENTER cfg - f\<bar> (STEP cfg)
                              \<and> real_of_int \<bar>CENTER cfg - f\<bar> < 0.4 * real_of_int (INPUT_RATE cfg))
                    freqs
        then Some AssertionError
      else if IF_BANDWIDTH cfg = 0 then Some ZeroDivisionError
      else None)"

text \<open>
  The module-level code: the checks, then one demodulator for each frequency of the
  command line, the noise measurement, the threshold, the scanner.
\<close>

definition startup ::
    "'f filters \<Rightarrow> welch \<Rightarrow> config \<Rightarrow> int list \<Rightarrow> nat option \<Rightarrow> io_state
       \<Rightarrow> py_error + 'f program" where
  "startup flt welch cfg freqs sigint io0 =
     (case check_arguments cfg freqs of
        Some e \<Rightarrow> Inl e
      | None \<Rightarrow>
          let demods = fold (\<lambda>f d. dict_set f (Demodulator flt cfg f) d) freqs []
          in case get_average_noise welch cfg io0 of
               Inl e \<Rightarrow> Inl e
             | Inr ((mean, std), io1) \<Rightarrow>
                 Inr \<lparr> iostate = io1, remaining_data = [], demodulators = demods,
                       threshold = mean + THRESH_FACTOR * std, out_freqs = [],
                       fa_queue = [], sigint_after = sigint \<rparr>)"

text \<open>\<^verbatim>\<open>Demodulator.ingest\<close> and \<^verbatim>\<open>Demodulator.close_queue\<close>.\<close>

definition ingest :: "complex list \<Rightarrow> 'f demodulator \<Rightarrow> 'f demodulator" where
  "ingest iqsamples self = self\<lparr>queue := queue self @ [Some iqsamples]\<rparr>"

definition close_queue :: "'f demodulator \<Rightarrow> 'f demodulator" where
  "close_queue self = self\<lparr>queue := queue self @ [None]\<rparr>"

text \<open>One iteration of the \<^verbatim>\<open>while True\<close> loop.\<close>

definition main_iteration :: "config \<Rightarrow> 'f program \<Rightarrow> py_error + 'f program" where
  "main_iteration cfg st =
     (case ingest_data (INGEST_SIZE cfg * 2) (remaining_data st) (iostate st) of
        Inl e \<Rightarrow> Inl e
      | Inr ((iqdata, rem), io1) \<Rightarrow>
          Inr (st\<lparr>iostate := io1, remaining_data := rem,
                  demodulators := map (\<lambda>(k, d). (k, ingest iqdata d)) (demodulators st),
                  fa_queue := fa_queue st @ [Some iqdata]\<rparr>))"

text \<open>
  How the loop ends: by the interrupt, caught by \<^verbatim>\<open>except KeyboardInterrupt\<close>, or by
  another exception, which leaves the \<^verbatim>\<open>try\<close> statement uncaught. The interrupt is
  taken at the start of an iteration, where the loop waits for input. A loop that never
  ends has the value \<open>None\<close>.
\<close>

datatype 'f loop_end = Interrupted "'f program" | Raised py_error

partial_function (option) main_loop :: "config \<Rightarrow> 'f program \<Rightarrow> 'f loop_end option" where
  "main_loop cfg st =
     (if sigint_after st = Some 0 then Some (Interrupted st)
      else case main_iteration cfg st of
             Inl e \<Rightarrow> Some (Raised e)
           | Inr st1 \<Rightarrow>
               main_loop cfg (st1\<lparr>sigint_after := map_option (\<lambda>n. n - 1) (sigint_after st1)\<rparr>))"

text \<open>
  The first loop after the \<^verbatim>\<open>try\<close> statement puts the sentinel on the queue of every
  demodulator. No statement puts anything on the queue of the \<^verbatim>\<open>FrequencyAdder\<close>.
\<close>

definition close_queues :: "'f program \<Rightarrow> 'f program" where
  "close_queues st = st\<lparr>demodulators := map (\<lambda>(k, d). (k, close_queue d)) (demodulators st)\<rparr>"

text \<open>
  A worker thread on the content of its queue, with no producer left: it handles the
  batches in order and exits at the sentinel; an exception of the handler ends it; on an
  empty queue \<^verbatim>\<open>queue.get()\<close> blocks for ever. \<^verbatim>\<open>thread.join()\<close> returns for a thread
  that has ended and never for one that is blocked.
\<close>

datatype 'a thread_end = Exited 'a | Died py_error | Blocked 'a

fun worker ::
    "(complex list \<Rightarrow> 'a \<Rightarrow> py_error + 'a) \<Rightarrow> complex list option list \<Rightarrow> 'a \<Rightarrow> 'a thread_end" where
  "worker handle [] s = Blocked s"
| "worker handle (None # q) s = Exited s"
| "worker handle (Some iqsamples # q) s =
     (case handle iqsamples s of
        Inl e \<Rightarrow> Died e
      | Inr s1 \<Rightarrow> worker handle q s1)"

subsection \<open>Registry invariant and detection\<close>

text \<open>
  The registry is well formed when its keys are distinct and every channel carries its
  key as frequency, with the band edges \<^verbatim>\<open>__init__\<close> gives it.
\<close>

definition registry_ok :: "(int \<times> 'f demodulator) list \<Rightarrow> bool" where
  "registry_ok reg \<longleftrightarrow>
     distinct (map fst reg)
     \<and> map (\<lambda>(k, d). (freq d, lower_freq d, higher_freq d)) reg
       = map (\<lambda>(k, d). (k, k - CHANNEL_SPACING div 2, k + CHANNEL_SPACING div 2)) reg"

text \<open>
  The detection of \<^verbatim>\<open>FrequencyAdder._ingest\<close> on its own: the frequency in Hz and the
  log-power of the strongest bin when that power is not below the threshold.
\<close>

definition detected :: "welch \<Rightarrow> config \<Rightarrow> complex list \<Rightarrow> real \<Rightarrow> (int \<times> real) option" where
  "detected welch cfg iqsamples thr =
     (let (f, S) = convert2hist welch cfg iqsamples
      in case argmax S of
           Inl e \<Rightarrow> None
         | Inr max_ind \<Rightarrow>
             if S ! max_ind < thr \<or> length f \<le> max_ind then None
             else Some (astype_int (f ! max_ind * 1000000), S ! max_ind))"

subsection \<open>A concrete configuration\<close>

text \<open>
  A receiver centred on 145 MHz at one million samples per second, with filters that pass
  their input through, and the channel 250 kHz above the centre as \<^verbatim>\<open>__init__\<close>
  leaves it.
\<close>

definition example_config :: config where
  "example_config =
     \<lparr> CENTER = 145000000, INPUT_RATE = 1000000, STEP = 2500, IF_BANDWIDTH = 12500,
       monitor_strength = False, use_autocorrelation = False,
       debug_autocorrelation = False, am = False \<rparr>"

definition example_filters :: "unit filters" where
  "example_filters =
     \<lparr> low_pass = (\<lambda>_ _ _. ()), high_pass = (\<lambda>_ _ _. ()), decimator = (\<lambda>_. ()),
       feed_complex = (\<lambda>f xs. (xs, f)), feed_real = (\<lambda>f xs. (xs, f)) \<rparr>"

definition example_demodulator :: "unit demodulator" where
  "example_demodulator = Demodulator example_filters example_config 145250000"

text \<open>
  A clock reading, with a subtraction that is right as long as the result stays within
  the same day.
\<close>

definition example_clock :: clock where
  "example_clock =
     \<lparr> utcnow = \<lparr> year = 2026, month = 11, day = 3, hour = 14, minute = 7, second = 9,
                  microsecond = 123456 \<rparr>,
       minus_microseconds = (\<lambda>t us.
         let tod = ((hour t * 60 + minute t) * 60 + second t) * 1000000 + microsecond t - us
         in t\<lparr> hour := tod div 3600000000, minute := tod div 60000000 mod 60,
               second := tod div 1000000 mod 60, microsecond := tod mod 1000000 \<rparr>) \<rparr>"

text \<open>
  A stand-in for the spectrum estimate: two bins, the second with log-power equal to
  the number of samples. And a program state with one channel, a threshold of \<open>1\<close>
  and a given input.
\<close>

definition example_welch :: welch where
  "example_welch samples fs = ([0, 1 / 4], [1, exp (real (length samples))])"

definition example_program :: "byte list \<Rightarrow> nat option \<Rightarrow> unit program" where
  "example_program bytes sigint =
     \<lparr> iostate = \<lparr> stdin = bytes, records = [] \<rparr>, remaining_data = [],
       demodulators = [(145250000, example_demodulator)],
       threshold = 1, out_freqs = [], fa_queue = [], sigint_after = sigint \<rparr>"


text \<open>
  A spectrum estimate whose second bin lies at the offset \<open>q\<close> MHz from the centre, the
  channel that \<^verbatim>\<open>__init__\<close> builds at a frequency, and the program state of the example
  with threshold \<open>0\<close> and a given registry.
\<close>

definition example_welch_at :: "real \<Rightarrow> welch" where
  "example_welch_at q samples fs = ([0, q], [1, exp (real (length samples))])"

definition example_channel :: "int \<Rightarrow> unit demodulator" where
  "example_channel k = Demodulator example_filters example_config k"

definition example_scanning :: "(int \<times> unit demodulator) list \<Rightarrow> unit program" where
  "example_scanning reg = (example_program [] None)\<lparr>threshold := 0, demodulators := reg\<rparr>"

section \<open>Properties\<close>

subsection \<open>Squelch hysteresis\<close>

lemma cast_vote_frame:
  assumes "cast_vote cfg d r s = Inr (v, s')"
  shows "is_recording s' = is_recording s" and "histeresis s' = histeresis s"
    and "memory_up s' = memory_up s" and "insert_timestamp s' = insert_timestamp s"
    and "old_histeresis s' = old_histeresis s" and "v = 1 \<or> v = - 1"
  using assms
  by (auto simp: cast_vote_def vote_by_dbfs_def vote_by_autocorrelation_def Let_def
      split: if_splits option.splits)

lemma squelch_idle_up:
  assumes cv: "cast_vote cfg d r (s\<lparr>old_histeresis := histeresis s\<rparr>) = Inr (1, s1)"
    and idle: "\<not> is_recording s"
    and lo: "HISTERESIS_UP \<le> histeresis s" and hi: "histeresis s < - 1"
  shows "squelch cfg d r s =
           Inr ((True, r), s1\<lparr>histeresis := histeresis s + 1, memory_up := memory_up s @ [r]\<rparr>)"
proof -
  note fr = cast_vote_frame [OF cv]
  from lo hi have clamp: "min HISTERESIS_DOWN (max HISTERESIS_UP (histeresis s + 1)) = histeresis s + 1"
    by (simp add: HISTERESIS_UP_def HISTERESIS_DOWN_def)
  show ?thesis
    using idle hi by (simp add: squelch_def cv fr clamp Let_def)
qed

lemma squelch_idle_open:
  assumes cv: "cast_vote cfg d r (s\<lparr>old_histeresis := histeresis s\<rparr>) = Inr (1, s1)"
    and idle: "\<not> is_recording s"
    and h: "histeresis s = - 1"
  shows "squelch cfg d r s =
           Inr ((False, concat (memory_up s @ [r])),
                s1\<lparr>histeresis := 0, memory_up := memory_up s @ [r]\<rparr>
                  \<lparr>is_recording := True, insert_timestamp := True,
                   histeresis := HISTERESIS_DOWN, memory_up := []\<rparr>)"
proof -
  note fr = cast_vote_frame [OF cv]
  from h have clamp: "min HISTERESIS_DOWN (max HISTERESIS_UP (histeresis s + 1)) = 0"
    by (simp add: HISTERESIS_UP_def HISTERESIS_DOWN_def)
  show ?thesis
    using idle by (simp add: squelch_def cv fr clamp Let_def)
qed

lemma squelch_rec_down:
  assumes cv: "cast_vote cfg d r (s\<lparr>old_histeresis := histeresis s\<rparr>) = Inr (- 1, s1)"
    and rec: "is_recording s"
    and lo: "1 < histeresis s" and hi: "histeresis s \<le> HISTERESIS_DOWN"
  shows "squelch cfg d r s = Inr ((False, r), s1\<lparr>histeresis := histeresis s - 1\<rparr>)"
proof -
  note fr = cast_vote_frame [OF cv]
  from lo hi have clamp: "min HISTERESIS_DOWN (max HISTERESIS_UP (histeresis s - 1)) = histeresis s - 1"
    by (simp add: HISTERESIS_UP_def HISTERESIS_DOWN_def)
  show ?thesis
    using rec lo by (simp add: squelch_def cv fr clamp Let_def)
qed

lemma squelch_rec_close:
  assumes cv: "cast_vote cfg d r (s\<lparr>old_histeresis := histeresis s\<rparr>) = Inr (- 1, s1)"
    and rec: "is_recording s"
    and h: "histeresis s = 1"
  shows "squelch cfg d r s =
           Inr ((False, silence),
                s1\<lparr>histeresis := 0\<rparr>
                  \<lparr>is_recording := False, histeresis := HISTERESIS_UP, memory_up := []\<rparr>)"
proof -
  note fr = cast_vote_frame [OF cv]
  from h have clamp: "min HISTERESIS_DOWN (max HISTERESIS_UP (histeresis s - 1)) = 0"
    by (simp add: HISTERESIS_UP_def HISTERESIS_DOWN_def)
  show ?thesis
    using rec by (simp add: squelch_def cv fr clamp Let_def)
qed

lemma vote_of_cast:
  "vote_of cfg d r s = Inr v \<Longrightarrow>
     \<exists>s1. cast_vote cfg d r (s\<lparr>old_histeresis := histeresis s\<rparr>) = Inr (v, s1)"
  by (cases "cast_vote cfg d r (s\<lparr>old_histeresis := histeresis s\<rparr>)")
     (auto simp: vote_of_def)


lemma votes_cast_Cons:
  assumes "votes_cast cfg ((d, r) # bs) s = Inr v # vs"
  shows "vote_of cfg d r s = Inr v"
  using assms by simp

lemma votes_cast_tail:
  assumes "votes_cast cfg ((d, r) # bs) s = v # vs" and "squelch cfg d r s = Inr (out, s')"
  shows "votes_cast cfg bs s' = vs"
  using assms by simp

lemma run_squelch_three_up:
  assumes idle: "\<not> is_recording s" and h: "histeresis s = HISTERESIS_UP"
    and votes: "votes_cast cfg [(d1, r1), (d2, r2), (d3, r3)] s = [Inr 1, Inr 1, Inr 1]"
  shows "\<exists>s'. run_squelch cfg [(d1, r1), (d2, r2), (d3, r3)] s = Inr s'
           \<and> is_recording s' \<and> histeresis s' = HISTERESIS_DOWN"
proof -
  from vote_of_cast [OF votes_cast_Cons [OF votes]] obtain c1
    where c1: "cast_vote cfg d1 r1 (s\<lparr>old_histeresis := histeresis s\<rparr>) = Inr (1, c1)" ..
  define s1 where "s1 = c1\<lparr>histeresis := histeresis s + 1, memory_up := memory_up s @ [r1]\<rparr>"
  have q1: "squelch cfg d1 r1 s = Inr ((True, r1), s1)"
    unfolding s1_def using c1 idle h
    by (intro squelch_idle_up) (simp_all add: HISTERESIS_UP_def)
  have s1: "\<not> is_recording s1" "histeresis s1 = - 2"
    using cast_vote_frame(1) [OF c1] idle h by (simp_all add: s1_def HISTERESIS_UP_def)
  note votes2 = votes_cast_tail [OF votes q1]
  from vote_of_cast [OF votes_cast_Cons [OF votes2]] obtain c2
    where c2: "cast_vote cfg d2 r2 (s1\<lparr>old_histeresis := histeresis s1\<rparr>) = Inr (1, c2)" ..
  define s2 where "s2 = c2\<lparr>histeresis := histeresis s1 + 1, memory_up := memory_up s1 @ [r2]\<rparr>"
  have q2: "squelch cfg d2 r2 s1 = Inr ((True, r2), s2)"
    unfolding s2_def using c2 s1
    by (intro squelch_idle_up) (simp_all add: HISTERESIS_UP_def)
  have s2: "\<not> is_recording s2" "histeresis s2 = - 1"
    using cast_vote_frame(1) [OF c2] s1 by (simp_all add: s2_def)
  note votes3 = votes_cast_tail [OF votes2 q2]
  from vote_of_cast [OF votes_cast_Cons [OF votes3]] obtain c3
    where c3: "cast_vote cfg d3 r3 (s2\<lparr>old_histeresis := histeresis s2\<rparr>) = Inr (1, c3)" ..
  note q3 = squelch_idle_open [OF c3 s2]
  show ?thesis
    by (simp add: q1 q2 q3)
qed

lemma run_squelch_three_down:
  assumes rec: "is_recording s" and h: "histeresis s = HISTERESIS_DOWN"
    and votes: "votes_cast cfg [(d1, r1), (d2, r2), (d3, r3)] s = [Inr (- 1), Inr (- 1), Inr (- 1)]"
  shows "\<exists>s'. run_squelch cfg [(d1, r1), (d2, r2), (d3, r3)] s = Inr s'
           \<and> \<not> is_recording s' \<and> histeresis s' = HISTERESIS_UP"
proof -
  from vote_of_cast [OF votes_cast_Cons [OF votes]] obtain c1
    where c1: "cast_vote cfg d1 r1 (s\<lparr>old_histeresis := histeresis s\<rparr>) = Inr (- 1, c1)" ..
  define s1 where "s1 = c1\<lparr>histeresis := histeresis s - 1\<rparr>"
  have q1: "squelch cfg d1 r1 s = Inr ((False, r1), s1)"
    unfolding s1_def using c1 rec h
    by (intro squelch_rec_down) (simp_all add: HISTERESIS_DOWN_def)
  have s1: "is_recording s1" "histeresis s1 = 2"
    using cast_vote_frame(1) [OF c1] rec h by (simp_all add: s1_def HISTERESIS_DOWN_def)
  note votes2 = votes_cast_tail [OF votes q1]
  from vote_of_cast [OF votes_cast_Cons [OF votes2]] obtain c2
    where c2: "cast_vote cfg d2 r2 (s1\<lparr>old_histeresis := histeresis s1\<rparr>) = Inr (- 1, c2)" ..
  define s2 where "s2 = c2\<lparr>histeresis := histeresis s1 - 1\<rparr>"
  have q2: "squelch cfg d2 r2 s1 = Inr ((False, r2), s2)"
    unfolding s2_def using c2 s1
    by (intro squelch_rec_down) (simp_all add: HISTERESIS_DOWN_def)
  have s2: "is_recording s2" "histeresis s2 = 1"
    using cast_vote_frame(1) [OF c2] s1 by (simp_all add: s2_def)
  note votes3 = votes_cast_tail [OF votes2 q2]
  from vote_of_cast [OF votes_cast_Cons [OF votes3]] obtain c3
    where c3: "cast_vote cfg d3 r3 (s2\<lparr>old_histeresis := histeresis s2\<rparr>) = Inr (- 1, c3)" ..
  note q3 = squelch_rec_close [OF c3 s2]
  show ?thesis
    by (simp add: q1 q2 q3)
qed

text \<open>
  C1. A demodulator that is not recording and whose hysteresis counter is at
  \<open>HISTERESIS_UP = -3\<close> is recording, with the counter at \<open>HISTERESIS_DOWN = 3\<close>, after
  three consecutive batches whose votes are all \<open>+1\<close>; one that is recording with the
  counter at \<open>HISTERESIS_DOWN\<close> has stopped, with the counter at \<open>HISTERESIS_UP\<close>, after
  three consecutive batches whose votes are all \<open>-1\<close>. None of the three calls raises.
\<close>

theorem squelch_three_votes:
  "(\<not> is_recording s \<and> histeresis s = HISTERESIS_UP
      \<and> votes_cast cfg [b1, b2, b3] s = [Inr 1, Inr 1, Inr 1]
    \<longrightarrow> (\<exists>s'. run_squelch cfg [b1, b2, b3] s = Inr s'
              \<and> is_recording s' \<and> histeresis s' = HISTERESIS_DOWN))
   \<and> (is_recording s \<and> histeresis s = HISTERESIS_DOWN
      \<and> votes_cast cfg [b1, b2, b3] s = [Inr (- 1), Inr (- 1), Inr (- 1)]
    \<longrightarrow> (\<exists>s'. run_squelch cfg [b1, b2, b3] s = Inr s'
              \<and> \<not> is_recording s' \<and> histeresis s' = HISTERESIS_UP))"
proof -
  obtain d1 r1 d2 r2 d3 r3 where b: "b1 = (d1, r1)" "b2 = (d2, r2)" "b3 = (d3, r3)"
    by (cases b1, cases b2, cases b3) blast
  show ?thesis
    unfolding b using run_squelch_three_up run_squelch_three_down by blast
qed

lemma example_idle:
  "\<not> is_recording example_demodulator" "histeresis example_demodulator = HISTERESIS_UP"
  "dbfs_off example_demodulator = 0" "\<not> use_autocorrelation example_config"
  by (simp_all add: example_demodulator_def Demodulator_def example_config_def)

theorem squelch_three_votes_witness:
  "(\<not> is_recording example_demodulator
      \<and> histeresis example_demodulator = HISTERESIS_UP
      \<and> votes_cast example_config [(20, [0.5]), (20, [0.25]), (20, [0.125])] example_demodulator
          = [Inr 1, Inr 1, Inr 1])
   \<and> (\<exists>s'. run_squelch example_config [(20, [0.5]), (20, [0.25]), (20, [0.125])]
               example_demodulator = Inr s'
           \<and> is_recording s' \<and> histeresis s' = HISTERESIS_DOWN)
   \<and> (is_recording (example_demodulator\<lparr>is_recording := True, histeresis := HISTERESIS_DOWN\<rparr>)
      \<and> histeresis (example_demodulator\<lparr>is_recording := True, histeresis := HISTERESIS_DOWN\<rparr>)
          = HISTERESIS_DOWN
      \<and> votes_cast example_config [(0, [0.5]), (0, [0.25]), (0, [0.125])]
          (example_demodulator\<lparr>is_recording := True, histeresis := HISTERESIS_DOWN\<rparr>)
          = [Inr (- 1), Inr (- 1), Inr (- 1)])
   \<and> (\<exists>s'. run_squelch example_config [(0, [0.5]), (0, [0.25]), (0, [0.125])]
               (example_demodulator\<lparr>is_recording := True, histeresis := HISTERESIS_DOWN\<rparr>) = Inr s'
           \<and> \<not> is_recording s' \<and> histeresis s' = HISTERESIS_UP)"
proof -
  let ?up = "[(20, [0.5]), (20, [0.25]), (20, [0.125])] :: (real \<times> real list) list"
  let ?down = "[(0, [0.5]), (0, [0.25]), (0, [0.125])] :: (real \<times> real list) list"
  let ?rec = "example_demodulator\<lparr>is_recording := True, histeresis := HISTERESIS_DOWN\<rparr>"
  have up: "votes_cast example_config ?up example_demodulator = [Inr 1, Inr 1, Inr 1]"
    by (simp add: vote_of_def cast_vote_def vote_by_dbfs_def squelch_def example_idle
        THRESHOLD_SNR_def HISTERESIS_UP_def HISTERESIS_DOWN_def Let_def)
  have down: "votes_cast example_config ?down ?rec = [Inr (- 1), Inr (- 1), Inr (- 1)]"
    by (simp add: vote_of_def cast_vote_def vote_by_dbfs_def squelch_def example_idle
        THRESHOLD_SNR_def HISTERESIS_UP_def HISTERESIS_DOWN_def Let_def)
  show ?thesis
    using squelch_three_votes [of example_demodulator example_config
            "(20, [0.5])" "(20, [0.25])" "(20, [0.125])"]
          squelch_three_votes [of ?rec example_config "(0, [0.5])" "(0, [0.25])" "(0, [0.125])"]
          up down example_idle(1,2)
    by simp
qed

subsection \<open>Noise floor of the strength voter\<close>

lemma vote_by_dbfs_noise_floor:
  assumes "vote_by_dbfs dbfs self = (vote, self')"
  shows "is_recording self \<Longrightarrow> dbfs_off self' = dbfs_off self"
    and "\<not> is_recording self \<Longrightarrow> vote = - 1 \<Longrightarrow>
           dbfs_off self' = (if dbfs < dbfs_off self
                             then 0.05 * dbfs + 0.95 * dbfs_off self
                             else 0.005 * dbfs + 0.995 * dbfs_off self)"
    and "vote = 1 \<Longrightarrow> dbfs_off self' = dbfs_off self"
    and "vote = 1 \<or> vote = - 1"
    and "vote = 1 \<longleftrightarrow> dbfs > dbfs_off self + THRESHOLD_SNR"
  using assms by (auto simp: vote_by_dbfs_def Let_def split: if_splits)

lemma squelch_dbfs_off:
  assumes "squelch cfg dbfs raw self = Inr (out, self')"
    and "cast_vote cfg dbfs raw (self\<lparr>old_histeresis := histeresis self\<rparr>) = Inr (v, s1)"
  shows "dbfs_off self' = dbfs_off s1"
  using assms by (auto simp: squelch_def Let_def split: if_splits)

text \<open>
  C3. With the strength voter, a batch processed while recording leaves \<open>dbfs_off\<close>
  unchanged; a batch processed while not recording whose vote is \<open>-1\<close> replaces it by
  \<open>0.05 * dbfs + 0.95 * dbfs_off\<close> when \<open>dbfs < dbfs_off\<close> and by
  \<open>0.005 * dbfs + 0.995 * dbfs_off\<close> otherwise; a batch whose vote is \<open>+1\<close> leaves it
  unchanged.
\<close>

theorem noise_floor_update:
  assumes strength: "\<not> use_autocorrelation cfg"
    and batch: "squelch cfg dbfs raw self = Inr (out, self')"
  shows "(is_recording self \<longrightarrow> dbfs_off self' = dbfs_off self)
       \<and> (\<not> is_recording self \<and> vote_of cfg dbfs raw self = Inr (- 1) \<longrightarrow>
            dbfs_off self' = (if dbfs < dbfs_off self
                              then 0.05 * dbfs + 0.95 * dbfs_off self
                              else 0.005 * dbfs + 0.995 * dbfs_off self))
       \<and> (vote_of cfg dbfs raw self = Inr 1 \<longrightarrow> dbfs_off self' = dbfs_off self)"
proof -
  let ?s = "self\<lparr>old_histeresis := histeresis self\<rparr>"
  obtain v s1 where vb: "vote_by_dbfs dbfs ?s = (v, s1)"
    by (cases "vote_by_dbfs dbfs ?s")
  with strength have cv: "cast_vote cfg dbfs raw ?s = Inr (v, s1)"
    by (simp add: cast_vote_def)
  have off: "dbfs_off self' = dbfs_off s1"
    by (rule squelch_dbfs_off [OF batch cv])
  have vo: "vote_of cfg dbfs raw self = Inr v"
    by (simp add: vote_of_def cv)
  show ?thesis
    using vote_by_dbfs_noise_floor(1-3) [OF vb] by (simp add: off vo)
qed

theorem noise_floor_update_witness:
  "(\<not> use_autocorrelation example_config
      \<and> \<not> is_recording example_demodulator
      \<and> vote_of example_config (- 20) [0.5] example_demodulator = Inr (- 1)
      \<and> squelch example_config (- 20) [0.5] example_demodulator
          = Inr ((True, [0.5]),
                 example_demodulator\<lparr>old_histeresis := HISTERESIS_UP, dbfs_off := - 1\<rparr>)
      \<and> dbfs_off (example_demodulator\<lparr>old_histeresis := HISTERESIS_UP, dbfs_off := - 1\<rparr>)
          = 0.05 * (- 20) + 0.95 * dbfs_off example_demodulator)
   \<and> (is_recording (example_demodulator\<lparr>is_recording := True, histeresis := HISTERESIS_DOWN\<rparr>)
      \<and> squelch example_config (- 20) [0.5]
            (example_demodulator\<lparr>is_recording := True, histeresis := HISTERESIS_DOWN\<rparr>)
          = Inr ((False, [0.5]),
                 example_demodulator\<lparr>is_recording := True, histeresis := 2,
                                     old_histeresis := HISTERESIS_DOWN\<rparr>)
      \<and> dbfs_off (example_demodulator\<lparr>is_recording := True, histeresis := 2,
                                       old_histeresis := HISTERESIS_DOWN\<rparr>)
          = dbfs_off (example_demodulator\<lparr>is_recording := True, histeresis := HISTERESIS_DOWN\<rparr>))
   \<and> (vote_of example_config 20 [0.5] example_demodulator = Inr 1
      \<and> squelch example_config 20 [0.5] example_demodulator
          = Inr ((True, [0.5]),
                 example_demodulator\<lparr>old_histeresis := HISTERESIS_UP, histeresis := - 2,
                                     memory_up := [[0.5]]\<rparr>)
      \<and> dbfs_off (example_demodulator\<lparr>old_histeresis := HISTERESIS_UP, histeresis := - 2,
                                       memory_up := [[0.5]]\<rparr>)
          = dbfs_off example_demodulator)"
proof -
  let ?rec = "example_demodulator\<lparr>is_recording := True, histeresis := HISTERESIS_DOWN\<rparr>"
  note defs = vote_of_def cast_vote_def vote_by_dbfs_def squelch_def example_idle
    THRESHOLD_SNR_def HISTERESIS_UP_def HISTERESIS_DOWN_def Let_def
  have v1: "vote_of example_config (- 20) [0.5] example_demodulator = Inr (- 1)"
    by (simp add: defs)
  have q1: "squelch example_config (- 20) [0.5] example_demodulator
          = Inr ((True, [0.5]),
                 example_demodulator\<lparr>old_histeresis := HISTERESIS_UP, dbfs_off := - 1\<rparr>)"
    by (simp add: defs) (simp add: example_demodulator_def Demodulator_def HISTERESIS_UP_def)
  have q2: "squelch example_config (- 20) [0.5] ?rec
          = Inr ((False, [0.5]),
                 example_demodulator\<lparr>is_recording := True, histeresis := 2,
                                     old_histeresis := HISTERESIS_DOWN\<rparr>)"
    by (simp add: defs)
  have v3: "vote_of example_config 20 [0.5] example_demodulator = Inr 1"
    by (simp add: defs)
  have q3: "squelch example_config 20 [0.5] example_demodulator
          = Inr ((True, [0.5]),
                 example_demodulator\<lparr>old_histeresis := HISTERESIS_UP, histeresis := - 2,
                                     memory_up := [[0.5]]\<rparr>)"
    by (simp add: defs) (simp add: example_demodulator_def Demodulator_def HISTERESIS_UP_def)
  show ?thesis
    using noise_floor_update [OF example_idle(4) q1] noise_floor_update [OF example_idle(4) q2]
      noise_floor_update [OF example_idle(4) q3] v1 v3 q1 q2 q3 example_idle
    by simp
qed

subsection \<open>Carrier mixer\<close>

lemma carrier_sample_shift:
  assumes S: "0 < STEP cfg" and R: "0 < INPUT_RATE cfg"
    and dR: "STEP cfg dvd INPUT_RATE cfg" and dF: "STEP cfg dvd fq"
  shows "carrier_sample cfg fq (t + nat (INPUT_RATE cfg div STEP cfg)) = carrier_sample cfg fq t"
proof -
  from dF obtain k where k: "fq = STEP cfg * k" ..
  from dR obtain p where p: "INPUT_RATE cfg = STEP cfg * p" ..
  from R S p have ppos: "0 < p" by (simp add: zero_less_mult_iff)
  have div: "INPUT_RATE cfg div STEP cfg = p" using S p by simp
  have ratio: "real_of_int fq / real_of_int (INPUT_RATE cfg) = real_of_int k / real_of_int p"
    using S by (simp add: k p)
  have np: "real (nat p) = real_of_int p" using ppos by simp
  have arg: "2 * pi * real (t + nat p) * (real_of_int k / real_of_int p)
           = 2 * pi * real t * (real_of_int k / real_of_int p) + 2 * pi * real_of_int k"
    using ppos by (simp add: np field_simps)
  have cs: "carrier_sample cfg fq u = cis (- (2 * pi * real u * (real_of_int k / real_of_int p)))" for u
    unfolding carrier_sample_def ratio cis_conv_exp by (simp add: algebra_simps)
  have one: "cis (- (2 * pi * real_of_int k)) = 1"
    using cis_multiple_2pi [of "real_of_int (- k)"] by simp
  have "cis (- (2 * pi * real t * (real_of_int k / real_of_int p) + 2 * pi * real_of_int k))
      = cis (- (2 * pi * real t * (real_of_int k / real_of_int p))) * cis (- (2 * pi * real_of_int k))"
    unfolding cis_mult by simp
  then show ?thesis
    unfolding div cs arg one by simp
qed

lemma carrier_sample_multiple:
  assumes "0 < STEP cfg" "0 < INPUT_RATE cfg" "STEP cfg dvd INPUT_RATE cfg" "STEP cfg dvd fq"
  shows "carrier_sample cfg fq (t + q * nat (INPUT_RATE cfg div STEP cfg)) = carrier_sample cfg fq t"
proof (induction q)
  case 0
  show ?case by simp
next
  case (Suc q)
  have "t + Suc q * nat (INPUT_RATE cfg div STEP cfg)
      = (t + q * nat (INPUT_RATE cfg div STEP cfg)) + nat (INPUT_RATE cfg div STEP cfg)"
    by simp
  then have "carrier_sample cfg fq (t + Suc q * nat (INPUT_RATE cfg div STEP cfg))
      = carrier_sample cfg fq (t + q * nat (INPUT_RATE cfg div STEP cfg))"
    by (simp only: carrier_sample_shift [OF assms])
  then show ?case
    by (simp only: Suc.IH)
qed

lemma carrier_sample_congruent:
  assumes "0 < STEP cfg" "0 < INPUT_RATE cfg" "STEP cfg dvd INPUT_RATE cfg" "STEP cfg dvd fq"
    and "i mod nat (INPUT_RATE cfg div STEP cfg) = j mod nat (INPUT_RATE cfg div STEP cfg)"
  shows "carrier_sample cfg fq i = carrier_sample cfg fq j"
proof -
  let ?p = "nat (INPUT_RATE cfg div STEP cfg)"
  have r: "carrier_sample cfg fq u = carrier_sample cfg fq (u mod ?p)" for u
    using carrier_sample_multiple [OF assms(1-4), of "u mod ?p" "u div ?p"] by simp
  show ?thesis
    by (subst r [of i], subst r [of j]) (simp only: assms(5))
qed

text \<open>
  In exact arithmetic the table that \<^verbatim>\<open>__init__\<close> builds repeats with the period
  \<open>if_period\<close> when \<open>STEP\<close> divides the sample rate and the IF offset. Start-up asserts
  that for the channels of the command line; \<^verbatim>\<open>FrequencyAdder._ingest\<close> builds a channel
  at a detected frequency without the check, and the table of doubles repeats only up to
  rounding. The properties of the mixer that follow take the table as it is.
\<close>

lemma Demodulator_table_periodic:
  assumes "0 < STEP cfg" "0 < INPUT_RATE cfg" "STEP cfg dvd INPUT_RATE cfg"
    and "STEP cfg dvd f - CENTER cfg"
    and "i < length (carrier_table (Demodulator flt cfg f))"
    and "j < length (carrier_table (Demodulator flt cfg f))"
    and "i mod nat (if_period (Demodulator flt cfg f)) = j mod nat (if_period (Demodulator flt cfg f))"
  shows "carrier_table (Demodulator flt cfg f) ! i = carrier_table (Demodulator flt cfg f) ! j"
proof -
  have c: "i mod nat (INPUT_RATE cfg div STEP cfg) = j mod nat (INPUT_RATE cfg div STEP cfg)"
    using assms(7) by (simp add: Demodulator_def)
  have "carrier_sample cfg (f - CENTER cfg) i = carrier_sample cfg (f - CENTER cfg) j"
    by (rule carrier_sample_congruent [OF assms(1-4) c])
  then show ?thesis
    using assms(5,6) by (simp add: Demodulator_def)
qed

lemma py_slice_upt_map:
  assumes "a + n \<le> T"
  shows "py_slice (map c [0..<T]) (int a) (int a + int n) = map (\<lambda>j. c (a + j)) [0..<n]"
proof -
  have "py_slice (map c [0..<T]) (int a) (int a + int n) = take n (drop a (map c [0..<T]))"
    using assms by (simp add: py_slice_def Let_def min_def)
  also have "\<dots> = map c [a..<a + n]"
    using assms by (simp add: drop_map take_map take_upt)
  also have "\<dots> = map c (map (\<lambda>j. j + a) [0..<n])"
    by (simp only: map_add_upt add.commute)
  also have "\<dots> = map (\<lambda>j. c (a + j)) [0..<n]"
    by (simp add: o_def add.commute)
  finally show ?thesis .
qed

lemma mix_fits:
  assumes table: "carrier_table d = map c [0..<T]"
    and phase: "0 \<le> if_phase d" and fits: "nat (if_phase d) + length xs \<le> T"
    and period: "if_period d \<noteq> 0"
  shows "mix xs d =
           Inr (map2 (*) xs (map (\<lambda>j. c (nat (if_phase d) + j)) [0..<length xs]),
                d\<lparr>if_phase := (if_phase d + int (length xs)) mod if_period d\<rparr>)"
proof -
  have "py_slice (carrier_table d) (if_phase d) (if_phase d + int (length xs))
      = map (\<lambda>j. c (nat (if_phase d) + j)) [0..<length xs]"
    using py_slice_upt_map [OF fits, of c] phase by (simp add: table)
  then show ?thesis
    using period by (simp add: mix_def np_multiply_def Let_def)
qed






lemma example_mixer:
  "0 < STEP example_config" "0 < INPUT_RATE example_config"
  "STEP example_config dvd INPUT_RATE example_config"
  "STEP example_config dvd if_freq example_demodulator"
  "carrier_table example_demodulator
     = map (carrier_sample example_config (if_freq example_demodulator))
         [0..<nat (INGEST_SIZE example_config * 2)]"
  "if_period example_demodulator = INPUT_RATE example_config div STEP example_config"
  "if_phase example_demodulator = 0"
  "if_period example_demodulator = 400"
  "nat (INGEST_SIZE example_config * 2) = 200000"
  by (simp_all add: example_demodulator_def Demodulator_def example_config_def INGEST_SIZE_def)


text \<open>
  The phase stays in \<open>[0, if_period)\<close> from one batch to the next: \<^verbatim>\<open>__init__\<close> sets it
  to \<open>0\<close> and the mixer reduces it modulo a positive period.
\<close>

lemma mix_phase_in_period:
  assumes "0 < if_period d" and "mix xs d = Inr (out, d')"
  shows "0 \<le> if_phase d' \<and> if_phase d' < if_period d' \<and> if_period d' = if_period d
         \<and> carrier_table d' = carrier_table d"
  using assms by (auto simp: mix_def Let_def split: sum.splits if_splits)








subsection \<open>Signal strength\<close>

lemma sum_cmod_zero:
  "(\<forall>x\<in>set xs. x = 0) \<Longrightarrow> sum_list (map cmod xs) = 0"
  by (induction xs) simp_all

lemma sum_cmod_nonneg: "0 \<le> sum_list (map cmod xs)"
  by (induction xs) simp_all

lemma sum_cmod_pos:
  "\<exists>x\<in>set xs. x \<noteq> 0 \<Longrightarrow> 0 < sum_list (map cmod xs)"
proof (induction xs)
  case Nil
  then show ?case by simp
next
  case (Cons a xs)
  show ?case
  proof (cases "a = 0")
    case True
    with Cons show ?thesis by simp
  next
    case False
    then have "0 < cmod a" by simp
    with sum_cmod_nonneg [of xs] have "0 < cmod a + sum_list (map cmod xs)" by linarith
    then show ?thesis by simp
  qed
qed

text \<open>
  C8, as amended. \<^verbatim>\<open>dbfs = 20 * math.log10(strength)\<close> has no guard: for an empty batch
  the strength and \<open>dbfs\<close> are nan and nothing is raised; for a non-empty batch whose
  samples are all zero \<^verbatim>\<open>math.log10\<close> raises; for a non-empty batch with a non-zero
  sample \<open>dbfs\<close> is \<open>20 * log10\<close> of the mean magnitude.
\<close>

theorem dbfs_unguarded:
  "(ifsamples = [] \<longrightarrow>
      map_sum id (np_scale 20) (math_log10 (signal_strength ifsamples)) = Inr NaN)
   \<and> (ifsamples \<noteq> [] \<and> (\<forall>x\<in>set ifsamples. x = 0) \<longrightarrow>
      map_sum id (np_scale 20) (math_log10 (signal_strength ifsamples))
        = Inl ValueError_math_domain)
   \<and> (ifsamples \<noteq> [] \<and> (\<exists>x\<in>set ifsamples. x \<noteq> 0) \<longrightarrow>
      map_sum id (np_scale 20) (math_log10 (signal_strength ifsamples))
        = Inr (Finite (20 * log 10 (sum_list (map cmod ifsamples) / real (length ifsamples)))))"
proof (intro conjI impI)
  assume "ifsamples = []"
  then show "map_sum id (np_scale 20) (math_log10 (signal_strength ifsamples)) = Inr NaN"
    by (simp add: signal_strength_def math_log10_def np_scale_def)
next
  assume "ifsamples \<noteq> [] \<and> (\<forall>x\<in>set ifsamples. x = 0)"
  then show "map_sum id (np_scale 20) (math_log10 (signal_strength ifsamples))
        = Inl ValueError_math_domain"
    by (simp add: signal_strength_def math_log10_def sum_cmod_zero)
next
  assume a: "ifsamples \<noteq> [] \<and> (\<exists>x\<in>set ifsamples. x \<noteq> 0)"
  then have "0 < sum_list (map cmod ifsamples) / real (length ifsamples)"
    using sum_cmod_pos [of ifsamples] by simp
  with a show "map_sum id (np_scale 20) (math_log10 (signal_strength ifsamples))
        = Inr (Finite (20 * log 10 (sum_list (map cmod ifsamples) / real (length ifsamples))))"
    by (simp add: signal_strength_def math_log10_def np_scale_def)
qed

theorem dbfs_unguarded_witness:
  "map_sum id (np_scale 20) (math_log10 (signal_strength [])) = Inr NaN
   \<and> map_sum id (np_scale 20) (math_log10 (signal_strength [0, 0])) = Inl ValueError_math_domain
   \<and> map_sum id (np_scale 20) (math_log10 (signal_strength [3, 0]))
        = Inr (Finite (20 * log 10 (sum_list (map cmod [3, 0]) / real (length [3, 0 :: complex]))))"
  using dbfs_unguarded [of "[]"] dbfs_unguarded [of "[0, 0]"] dbfs_unguarded [of "[3, 0]"]
  by simp

text \<open>
  C8 as stated fails: a batch of two zero samples reaches \<^verbatim>\<open>math.log10(0.0)\<close> and
  the call raises.
\<close>

theorem dbfs_zero_counterexample:
  "ingest_strength example_filters [0, 0] example_demodulator = Inl ValueError_math_domain"
proof -
  let ?c = "carrier_sample example_config (if_freq example_demodulator)"
  have table: "carrier_table example_demodulator = map ?c [0..<200000]"
    using example_mixer(5) by (simp only: example_mixer(9))
  have m: "mix [0, 0] example_demodulator
          = Inr ([0, 0], example_demodulator\<lparr>if_phase := 2\<rparr>)"
    using mix_fits [OF table, of "[0, 0]"] by (simp add: example_mixer(7,8) upt_rec)
  have last: "last_if_sample example_demodulator = []"
    by (simp add: example_demodulator_def Demodulator_def)
  show ?thesis
    by (simp add: ingest_strength_def m example_filters_def last signal_strength_def
        math_log10_def)
qed

subsection \<open>Timestamp watermark\<close>

lemma timedelta_audio_block:
  "timedelta_seconds (real n / real_of_int AUDIO_RATE) = 80 * int n"
proof -
  have "real n / real_of_int AUDIO_RATE * 1000000 = of_int (80 * int n)"
    by (simp add: AUDIO_RATE_def)
  then show ?thesis
    by (simp only: timedelta_seconds_def Let_def floor_of_int) simp
qed

lemma div_mod_digit:
  fixes x b c :: int
  assumes "0 < b" "0 \<le> c"
  shows "(x mod (b * c)) div b = (x div b) mod c"
proof -
  have "(x mod (b * c)) div b = (b * (x div b mod c) + x mod b) div b"
    using assms(2) by (simp only: zmod_zmult2_eq)
  also have "\<dots> = x div b mod c"
    using assms(1) by (simp add: div_pos_pos_trivial)
  finally show ?thesis .
qed

lemma digit_of_mod:
  fixes x :: int
  shows "decimal_digit x 3 = (x mod 10000) div 1000"
    and "decimal_digit x 2 = (x mod 1000) div 100"
    and "decimal_digit x 1 = (x mod 100) div 10"
    and "decimal_digit x 0 = (x mod 10) div 1"
    and "decimal_digit x 5 = (x mod 1000000) div 100000"
    and "decimal_digit x 4 = (x mod 100000) div 10000"
proof -
  show "decimal_digit x 3 = (x mod 10000) div 1000"
    using div_mod_digit [of 1000 10 x] by (simp add: decimal_digit_def)
  show "decimal_digit x 2 = (x mod 1000) div 100"
    using div_mod_digit [of 100 10 x] by (simp add: decimal_digit_def)
  show "decimal_digit x 1 = (x mod 100) div 10"
    using div_mod_digit [of 10 10 x] by (simp add: decimal_digit_def)
  show "decimal_digit x 0 = (x mod 10) div 1"
    by (simp add: decimal_digit_def)
  show "decimal_digit x 5 = (x mod 1000000) div 100000"
    using div_mod_digit [of 100000 10 x] by (simp add: decimal_digit_def)
  show "decimal_digit x 4 = (x mod 100000) div 10000"
    using div_mod_digit [of 10000 10 x] by (simp add: decimal_digit_def)
qed

lemma digit_pairs:
  fixes x :: int
  assumes "0 \<le> x" "x < 100"
  shows "decimal_digit x 1 = x div 10" "decimal_digit x 0 = x mod 10"
proof -
  have "0 \<le> x div 10" "x div 10 < 10" using assms by simp_all
  then show "decimal_digit x 1 = x div 10"
    by (simp add: decimal_digit_def)
  show "decimal_digit x 0 = x mod 10"
    by (simp add: decimal_digit_def)
qed

lemma gen_timestamp_layout:
  assumes "datetime_in_range (minus_microseconds clk (utcnow clk) (80 * int (length output)))"
  shows "gen_timestamp clk output
       = watermark_layout (minus_microseconds clk (utcnow clk) (80 * int (length output)))"
proof -
  let ?now = "minus_microseconds clk (utcnow clk) (80 * int (length output))"
  from assms have r: "0 \<le> day ?now" "day ?now < 100" "0 \<le> hour ?now" "hour ?now < 100"
    "0 \<le> minute ?now" "minute ?now < 100" "0 \<le> second ?now" "second ?now < 100"
    by (simp_all add: datetime_in_range_def)
  have y: "decimal_digit (year ?now) 1 = (year ?now mod 100) div 10"
    by (rule digit_of_mod(3))
  show ?thesis
    unfolding gen_timestamp_def watermark_layout_def timedelta_audio_block Let_def
      digit_of_mod(1,2,4,5,6) y
      digit_pairs [OF r(1,2)] digit_pairs [OF r(3,4)] digit_pairs [OF r(5,6)]
      digit_pairs [OF r(7,8)] encode_digit_def
    by simp
qed

lemma cast_vote_wav:
  assumes "cast_vote cfg d r s = Inr (v, s')"
  shows "wav s' = wav s"
  using assms
  by (auto simp: cast_vote_def vote_by_dbfs_def vote_by_autocorrelation_def Let_def
      split: if_splits option.splits)

lemma squelch_opens:
  assumes sq: "squelch cfg d r s = Inr ((squelched, raw'), s1)"
    and idle: "\<not> is_recording s" and rec: "is_recording s1"
  shows "\<not> squelched" and "insert_timestamp s1" and "wav s1 = wav s"
proof -
  let ?s = "s\<lparr>old_histeresis := histeresis s\<rparr>"
  from sq obtain v c where cv: "cast_vote cfg d r ?s = Inr (v, c)"
    by (cases "cast_vote cfg d r ?s") (auto simp: squelch_def)
  note fr = cast_vote_frame(1) [OF cv] cast_vote_wav [OF cv]
  from sq idle rec fr show "\<not> squelched" "insert_timestamp s1" "wav s1 = wav s"
    by (auto simp: squelch_def cv Let_def split: if_splits)
qed

lemma squelch_closed_output:
  assumes "squelch cfg d r s = Inr ((True, raw'), s1)"
  shows "\<not> is_recording s1"
proof -
  let ?s = "s\<lparr>old_histeresis := histeresis s\<rparr>"
  from assms obtain v c where cv: "cast_vote cfg d r ?s = Inr (v, c)"
    by (cases "cast_vote cfg d r ?s") (auto simp: squelch_def)
  from assms show ?thesis
    by (auto simp: squelch_def cv Let_def split: if_splits)
qed

lemma audio_chain_frame:
  assumes "audio_chain flt raw s = (out, s')"
  shows "wav s' = wav s" "insert_timestamp s' = insert_timestamp s"
    "is_recording s' = is_recording s"
  using assms by (auto simp: audio_chain_def Let_def split: prod.splits)

lemma ingest_audio_opens:
  assumes ia: "ingest_audio flt cfg clk dbfs raw self = Inr self'"
    and idle: "\<not> is_recording self" and rec: "is_recording self'"
  shows "\<exists>raw' s1. squelch cfg dbfs raw self = Inr ((False, raw'), s1)
           \<and> wav self' = Some ((case wav self of None \<Rightarrow> [] | Some w \<Rightarrow> w)
                                @ gen_timestamp clk (fst (audio_chain flt raw' s1))
                                @ fst (audio_chain flt raw' s1))"
proof -
  from ia obtain squelched raw' s1
    where sq: "squelch cfg dbfs raw self = Inr ((squelched, raw'), s1)"
    by (cases "squelch cfg dbfs raw self") (auto simp: ingest_audio_def)
  obtain out s2 where ac: "audio_chain flt raw' s1 = (out, s2)"
    by (cases "audio_chain flt raw' s1")
  note acf = audio_chain_frame [OF ac]
  have nsq: "\<not> squelched"
  proof
    assume "squelched"
    with sq squelch_closed_output [of cfg dbfs raw self raw' s1] ia rec show False
      by (auto simp: ingest_audio_def)
  qed
  from ia sq nsq ac rec acf have rec1: "is_recording s1"
    by (auto simp: ingest_audio_def split: if_splits)
  note op = squelch_opens [OF sq idle rec1]
  from ia show ?thesis
    by (auto simp: ingest_audio_def sq nsq ac acf op)
qed

text \<open>
  C9. For a time whose fields are in the ranges of a \<^verbatim>\<open>datetime\<close>, the watermark is,
  in order: \<open>0x81\<close>, \<open>0x82\<close>; the four decimal digits of the year; the month; two
  digits each for day, hour, minute and second; the hundred-thousands and ten-thousands
  digits of the microseconds; \<open>0x83\<close>, \<open>0x84\<close>; every digit, and the month, coded as
  \<open>127 - 5 + value\<close>. The time encoded is \<^verbatim>\<open>utcnow()\<close> minus the duration of the audio
  block being written, 80 microseconds for each of its samples at 12500 Hz. A batch on
  which the demodulator starts recording appends that watermark, followed by its audio,
  to the samples of the WAV file.
\<close>

theorem timestamp_watermark:
  "(datetime_in_range (minus_microseconds clk (utcnow clk) (80 * int (length output)))
      \<longrightarrow> gen_timestamp clk output
            = watermark_layout (minus_microseconds clk (utcnow clk) (80 * int (length output))))
   \<and> (ingest_audio flt cfg clk dbfs raw self = Inr self'
        \<and> \<not> is_recording self \<and> is_recording self'
      \<longrightarrow> (\<exists>raw' s1. squelch cfg dbfs raw self = Inr ((False, raw'), s1)
             \<and> wav self' = Some ((case wav self of None \<Rightarrow> [] | Some w \<Rightarrow> w)
                                  @ gen_timestamp clk (fst (audio_chain flt raw' s1))
                                  @ fst (audio_chain flt raw' s1))))"
  using gen_timestamp_layout [of clk "output"]
    ingest_audio_opens [of flt cfg clk dbfs raw self self']
  by blast

theorem timestamp_watermark_witness:
  "gen_timestamp example_clock [16383, 8191]
     = watermark_layout (minus_microseconds example_clock (utcnow example_clock)
                           (80 * int (length [16383, 8191 :: int])))
   \<and> gen_timestamp example_clock [16383, 8191]
     = [0x81, 0x82, 124, 122, 124, 128, 133, 122, 125, 123, 126, 122, 129, 122, 131, 123, 124,
        0x83, 0x84]
   \<and> (\<exists>self'. ingest_audio example_filters example_config example_clock 20 [1 / 4]
                 (example_demodulator\<lparr>histeresis := - 1, memory_up := [[1 / 2]]\<rparr>) = Inr self'
         \<and> \<not> is_recording (example_demodulator\<lparr>histeresis := - 1, memory_up := [[1 / 2]]\<rparr>)
         \<and> is_recording self'
         \<and> wav self' = Some (gen_timestamp example_clock [16383, 8191] @ [16383, 8191]))"
proof -
  let ?s = "example_demodulator\<lparr>histeresis := - 1, memory_up := [[1 / 2]]\<rparr>"
  let ?r = "ingest_audio example_filters example_config example_clock 20 [1 / 4] ?s"
  let ?now = "minus_microseconds example_clock (utcnow example_clock)
                (80 * int (length [16383, 8191 :: int]))"
  have now: "?now = \<lparr> year = 2026, month = 11, day = 3, hour = 14, minute = 7, second = 9,
                  microsecond = 123296 \<rparr>"
    by (simp add: example_clock_def Let_def)
  have range: "datetime_in_range ?now"
    unfolding now by (simp add: datetime_in_range_def)
  have sq: "squelch example_config 20 [1 / 4] ?s
        = Inr ((False, [1 / 2, 1 / 4]),
               ?s\<lparr>old_histeresis := - 1, is_recording := True, insert_timestamp := True,
                   histeresis := HISTERESIS_DOWN, memory_up := []\<rparr>)"
    by (simp add: squelch_def cast_vote_def vote_by_dbfs_def example_idle
        THRESHOLD_SNR_def HISTERESIS_UP_def HISTERESIS_DOWN_def Let_def)
  have ac: "audio_chain example_filters [1 / 2, 1 / 4] s = ([16383, 8191], s)" for s :: "unit demodulator"
    by (simp add: audio_chain_def example_filters_def np_clip_def astype_int_def)
  have wav0: "wav ?s = None"
    by (simp add: example_demodulator_def Demodulator_def)
  have run: "?r = Inr (projr ?r)" "is_recording (projr ?r)"
    by (simp_all add: ingest_audio_def sq ac)
  have idle: "\<not> is_recording ?s"
    by (simp add: example_idle)
  from timestamp_watermark [of example_clock "[16383, 8191]" example_filters example_config
         20 "[1 / 4]" ?s "projr ?r"] range run idle
  have layout: "gen_timestamp example_clock [16383, 8191] = watermark_layout ?now"
    and written: "\<exists>raw' s1. squelch example_config 20 [1 / 4] ?s = Inr ((False, raw'), s1)
           \<and> wav (projr ?r) = Some ((case wav ?s of None \<Rightarrow> [] | Some w \<Rightarrow> w)
                @ gen_timestamp example_clock (fst (audio_chain example_filters raw' s1))
                @ fst (audio_chain example_filters raw' s1))"
    by blast+
  from written have w: "wav (projr ?r)
       = Some (gen_timestamp example_clock [16383, 8191] @ [16383, 8191])"
    by (simp add: sq ac wav0)
  have explicit: "watermark_layout ?now
     = [0x81, 0x82, 124, 122, 124, 128, 133, 122, 125, 123, 126, 122, 129, 122, 131, 123, 124,
        0x83, 0x84]"
    unfolding now by (simp add: watermark_layout_def encode_digit_def decimal_digit_def)
  show ?thesis
    using layout explicit run idle w by metis
qed

subsection \<open>Reading the input stream\<close>

lemma stdin_read_eof: "stdin_read n [] = ([], [])"
  by (simp add: stdin_read_def)

lemma ingest_data_eof:
  assumes "stdin io = []" and "even (length remaining)"
  shows "ingest_data n remaining io =
           Inr ((iq_of_bytes remaining, remaining),
                io\<lparr>records := records io @
                  [LogError ''Something went wrong while reading data. Check if device is present.'']\<rparr>)"
proof -
  have "io\<lparr>stdin := []\<rparr> = io"
    using assms(1) by simp
  with assms show ?thesis
    by (simp add: ingest_data_def stdin_read_eof Let_def even_iff_mod_2_eq_zero)
qed

lemma main_iteration_eof:
  assumes "stdin (iostate st) = []" and "even (length (remaining_data st))"
  shows "main_iteration cfg st =
           Inr (st\<lparr>iostate := (iostate st)\<lparr>records := records (iostate st) @
                  [LogError ''Something went wrong while reading data. Check if device is present.'']\<rparr>,
                  remaining_data := remaining_data st,
                  demodulators :=
                    map (\<lambda>(k, d). (k, ingest (iq_of_bytes (remaining_data st)) d)) (demodulators st),
                  fa_queue := fa_queue st @ [Some (iq_of_bytes (remaining_data st))]\<rparr>)"
  by (simp add: main_iteration_def ingest_data_eof [OF assms])

lemma main_loop_eof_never_returns:
  assumes ret: "main_loop cfg st = Some y"
  shows "\<not> (stdin (iostate st) = [] \<and> even (length (remaining_data st)) \<and> sigint_after st = None)"
proof (rule main_loop.raw_induct
    [of "\<lambda>c s r. \<not> (stdin (iostate s) = [] \<and> even (length (remaining_data s))
                      \<and> sigint_after s = None)", OF _ ret])
  fix loop :: "config \<Rightarrow> 'a program \<Rightarrow> 'a loop_end option" and c s r
  assume IH: "\<And>c s r. loop c s = Some r \<Longrightarrow>
      \<not> (stdin (iostate s) = [] \<and> even (length (remaining_data s)) \<and> sigint_after s = None)"
    and step: "(if sigint_after s = Some 0 then Some (Interrupted s)
      else case main_iteration c s of Inl e \<Rightarrow> Some (Raised e)
           | Inr st1 \<Rightarrow>
               loop c (st1\<lparr>sigint_after := map_option (\<lambda>n. n - 1) (sigint_after st1)\<rparr>)) =
     Some r"
  show "\<not> (stdin (iostate s) = [] \<and> even (length (remaining_data s)) \<and> sigint_after s = None)"
  proof
    assume eof: "stdin (iostate s) = [] \<and> even (length (remaining_data s)) \<and> sigint_after s = None"
    let ?s1 = "s\<lparr>iostate := (iostate s)\<lparr>records := records (iostate s) @
                  [LogError ''Something went wrong while reading data. Check if device is present.'']\<rparr>,
                  remaining_data := remaining_data s,
                  demodulators :=
                    map (\<lambda>(k, d). (k, ingest (iq_of_bytes (remaining_data s)) d)) (demodulators s),
                  fa_queue := fa_queue s @ [Some (iq_of_bytes (remaining_data s))]\<rparr>"
    from eof have it: "main_iteration c s = Inr ?s1"
      by (simp add: main_iteration_eof)
    from step eof it
    have "loop c (?s1\<lparr>sigint_after := map_option (\<lambda>n. n - 1) (sigint_after ?s1)\<rparr>) = Some r"
      by simp
    from IH [OF this] eof show False
      by simp
  qed
qed


text \<open>
  C6, as amended. When a read yields no data and an even number of bytes is carried
  over, the iteration logs an error, hands the batch made of the carried bytes (the empty
  batch when there are none) to every demodulator and to the scanner, and the loop goes
  on; with no interrupt to come, the loop never ends.
\<close>

theorem eof_keeps_looping:
  assumes "stdin (iostate st) = []" and "even (length (remaining_data st))"
  shows "main_iteration cfg st =
           Inr (st\<lparr>iostate := (iostate st)\<lparr>records := records (iostate st) @
                  [LogError ''Something went wrong while reading data. Check if device is present.'']\<rparr>,
                  remaining_data := remaining_data st,
                  demodulators :=
                    map (\<lambda>(k, d). (k, ingest (iq_of_bytes (remaining_data st)) d)) (demodulators st),
                  fa_queue := fa_queue st @ [Some (iq_of_bytes (remaining_data st))]\<rparr>)
         \<and> (sigint_after st = None \<longrightarrow> main_loop cfg st = None)"
proof (intro conjI impI)
  show "main_iteration cfg st =
           Inr (st\<lparr>iostate := (iostate st)\<lparr>records := records (iostate st) @
                  [LogError ''Something went wrong while reading data. Check if device is present.'']\<rparr>,
                  remaining_data := remaining_data st,
                  demodulators :=
                    map (\<lambda>(k, d). (k, ingest (iq_of_bytes (remaining_data st)) d)) (demodulators st),
                  fa_queue := fa_queue st @ [Some (iq_of_bytes (remaining_data st))]\<rparr>)"
    by (rule main_iteration_eof [OF assms])
next
  assume "sigint_after st = None"
  with assms main_loop_eof_never_returns [of cfg st] show "main_loop cfg st = None"
    by (cases "main_loop cfg st") auto
qed

lemma example_program_eof:
  "stdin (iostate (example_program [] sig)) = []"
  "even (length (remaining_data (example_program [] sig)))"
  "sigint_after (example_program bs sig) = sig"
  by (simp_all add: example_program_def)

theorem eof_keeps_looping_witness:
  "main_iteration example_config (example_program [] None) =
     Inr ((example_program [] None)
          \<lparr>iostate := \<lparr>stdin = [], records =
             [LogError ''Something went wrong while reading data. Check if device is present.'']\<rparr>,
           demodulators := [(145250000, ingest [] example_demodulator)],
           fa_queue := [Some []]\<rparr>)
   \<and> main_loop example_config (example_program [] None) = None"
  using eof_keeps_looping [of "example_program [] None" example_config]
  by (simp add: example_program_def)

text \<open>
  C6 as stated fails: on an input at its end, with no interrupt, the ingest loop does not
  terminate.
\<close>

theorem eof_loop_counterexample:
  "main_loop example_config (example_program [] None) = None"
proof (cases "main_loop example_config (example_program [] None)")
  case None
  then show ?thesis .
next
  case (Some y)
  from main_loop_eof_never_returns [OF this] show ?thesis
    by (simp add: example_program_def)
qed

text \<open>
  C7. The code at an input of three bytes: the call of \<^verbatim>\<open>logging.info\<close> with the
  keyword \<^verbatim>\<open>file\<close> raises, in \<^verbatim>\<open>ingest_data\<close> and so out of the ingest loop; no byte
  is carried over and nothing is processed.
\<close>

theorem odd_byte_raises:
  "ingest_data 200000 [] \<lparr>stdin = [1, 2, 3], records = []\<rparr> = Inl TypeError_logging_kwarg
   \<and> main_loop example_config (example_program [1, 2, 3] None)
       = Some (Raised TypeError_logging_kwarg)"
proof
  show "ingest_data 200000 [] \<lparr>stdin = [1, 2, 3], records = []\<rparr> = Inl TypeError_logging_kwarg"
    by (simp add: ingest_data_def stdin_read_def)
  have "main_iteration example_config (example_program [1, 2, 3] None)
      = Inl TypeError_logging_kwarg"
    by (simp add: main_iteration_def ingest_data_def stdin_read_def example_program_def
        INGEST_SIZE_def example_config_def)
  then show "main_loop example_config (example_program [1, 2, 3] None)
       = Some (Raised TypeError_logging_kwarg)"
    by (subst main_loop.simps) (simp add: example_program_eof(3))
qed

subsection \<open>Shutdown\<close>

lemma close_queues_fa_queue: "fa_queue (close_queues st) = fa_queue st"
  by (simp add: close_queues_def)

lemma main_iteration_fa_queue:
  "main_iteration cfg st = Inr st1 \<Longrightarrow> \<exists>iq. fa_queue st1 = fa_queue st @ [Some iq]"
  by (auto simp: main_iteration_def split: sum.splits)

lemma worker_without_sentinel: "None \<notin> set q \<Longrightarrow> worker handle q s \<noteq> Exited s'"
proof (induction q arbitrary: s)
  case Nil
  then show ?case by simp
next
  case (Cons a q)
  then show ?case
    by (cases a) (auto split: sum.splits)
qed

lemma close_queues_demodulators:
  "map (queue \<circ> snd) (demodulators (close_queues st))
     = map (\<lambda>(k, d). queue d @ [None]) (demodulators st)"
  by (simp add: close_queues_def close_queue_def o_def split_def)

text \<open>
  C10. The code at an input of four bytes with the interrupt after one iteration: the
  loop ends by the interrupt; closing the queues puts the sentinel behind the batch on
  the demodulator's queue; the scanner's queue holds the batch and no sentinel, so its
  worker handles the batch and then blocks on the empty queue.
\<close>

theorem scanner_not_signalled:
  "main_loop example_config (example_program [1, 2, 3, 4] (Some 1))
     = Some (Interrupted ((example_program [] (Some 0))
              \<lparr>demodulators := [(145250000, ingest (iq_of_bytes [1, 2, 3, 4]) example_demodulator)],
               fa_queue := [Some (iq_of_bytes [1, 2, 3, 4])]\<rparr>))
   \<and> map (queue \<circ> snd) (demodulators (close_queues ((example_program [] (Some 0))
              \<lparr>demodulators := [(145250000, ingest (iq_of_bytes [1, 2, 3, 4]) example_demodulator)],
               fa_queue := [Some (iq_of_bytes [1, 2, 3, 4])]\<rparr>)))
       = [[Some (iq_of_bytes [1, 2, 3, 4]), None]]
   \<and> fa_queue (close_queues ((example_program [] (Some 0))
              \<lparr>demodulators := [(145250000, ingest (iq_of_bytes [1, 2, 3, 4]) example_demodulator)],
               fa_queue := [Some (iq_of_bytes [1, 2, 3, 4])]\<rparr>))
       = [Some (iq_of_bytes [1, 2, 3, 4])]
   \<and> worker (fa_ingest example_filters example_welch example_config)
        (fa_queue (close_queues ((example_program [] (Some 0))
              \<lparr>demodulators := [(145250000, ingest (iq_of_bytes [1, 2, 3, 4]) example_demodulator)],
               fa_queue := [Some (iq_of_bytes [1, 2, 3, 4])]\<rparr>)))
        (close_queues ((example_program [] (Some 0))
              \<lparr>demodulators := [(145250000, ingest (iq_of_bytes [1, 2, 3, 4]) example_demodulator)],
               fa_queue := [Some (iq_of_bytes [1, 2, 3, 4])]\<rparr>))
       = Blocked ((close_queues ((example_program [] (Some 0))
              \<lparr>demodulators := [(145250000, ingest (iq_of_bytes [1, 2, 3, 4]) example_demodulator)],
               fa_queue := [Some (iq_of_bytes [1, 2, 3, 4])]\<rparr>))\<lparr>out_freqs := [(145250000, 2)]\<rparr>)"
proof -
  let ?iq = "iq_of_bytes [1, 2, 3, 4]"
  let ?S = "(example_program [] (Some 0))
              \<lparr>demodulators := [(145250000, ingest ?iq example_demodulator)],
               fa_queue := [Some ?iq]\<rparr>"
  have it: "main_iteration example_config (example_program [1, 2, 3, 4] (Some 1))
      = Inr (?S\<lparr>sigint_after := Some 1\<rparr>)"
    by (simp add: main_iteration_def ingest_data_def stdin_read_def example_program_def
        INGEST_SIZE_def example_config_def del: iq_of_bytes.simps)
  have stop: "main_loop example_config ?S = Some (Interrupted ?S)"
    by (subst main_loop.simps) (simp add: example_program_def)
  have loop: "main_loop example_config (example_program [1, 2, 3, 4] (Some 1))
      = Some (Interrupted ?S)"
  proof -
    have ne: "sigint_after (example_program [1, 2, 3, 4] (Some 1)) \<noteq> Some 0"
      by (simp add: example_program_eof(3))
    have upd: "(?S\<lparr>sigint_after := Some 1\<rparr>)\<lparr>sigint_after :=
                 map_option (\<lambda>n. n - 1) (sigint_after (?S\<lparr>sigint_after := Some 1\<rparr>))\<rparr> = ?S"
      by (simp add: example_program_def del: iq_of_bytes.simps)
    show ?thesis
      by (subst main_loop.simps) (simp only: ne if_False it sum.case upd stop)
  qed
  have q: "map (queue \<circ> snd) (demodulators (close_queues ?S)) = [[Some ?iq, None]]"
    by (simp add: close_queues_def close_queue_def ingest_def example_demodulator_def
        Demodulator_def del: iq_of_bytes.simps)
  have fq: "fa_queue (close_queues ?S) = [Some ?iq]"
    by (simp add: close_queues_def)
  have hist: "convert2hist example_welch example_config ?iq = ([145, 581 / 4], [0, 2])"
    by (simp add: convert2hist_def example_welch_def example_config_def)
  have within: "is_within (close_queue (ingest ?iq example_demodulator)) 145250000"
    by (simp add: is_within_def close_queue_def ingest_def example_demodulator_def Demodulator_def
        CHANNEL_SPACING_def del: iq_of_bytes.simps)
  have scan: "fa_ingest example_filters example_welch example_config ?iq (close_queues ?S)
      = Inr ((close_queues ?S)\<lparr>out_freqs := [(145250000, 2)]\<rparr>)"
    using within
    by (simp add: fa_ingest_def hist argmax_def astype_int_def close_queues_def
        example_program_def del: iq_of_bytes.simps)
  have w: "worker (fa_ingest example_filters example_welch example_config)
        (fa_queue (close_queues ?S)) (close_queues ?S)
       = Blocked ((close_queues ?S)\<lparr>out_freqs := [(145250000, 2)]\<rparr>)"
    by (simp only: fq worker.simps scan sum.case)
  from loop q fq w show ?thesis
    by (intro conjI)
qed

subsection \<open>Channel registry\<close>

lemma dict_set_fresh: "k \<notin> fst ` set reg \<Longrightarrow> dict_set k v reg = reg @ [(k, v)]"
  by (induction reg) auto

lemma dict_set_keys:
  "map fst (dict_set k v reg) = (if k \<in> fst ` set reg then map fst reg else map fst reg @ [k])"
proof (induction reg)
  case Nil
  show ?case by simp
next
  case (Cons a reg)
  obtain k' v' where a: "a = (k', v')" by (cases a)
  show ?case
  proof (cases "k' = k")
    case True
    then show ?thesis by (simp add: a)
  next
    case False
    then have "k \<in> fst ` set (a # reg) \<longleftrightarrow> k \<in> fst ` set reg"
      by (auto simp: a)
    with False Cons.IH show ?thesis
      by (simp add: a)
  qed
qed

lemma registry_ok_Nil: "registry_ok []"
  by (simp add: registry_ok_def)

lemma Demodulator_fields:
  "freq (Demodulator flt cfg f) = f"
  "lower_freq (Demodulator flt cfg f) = f - CHANNEL_SPACING div 2"
  "higher_freq (Demodulator flt cfg f) = f + CHANNEL_SPACING div 2"
  "queue (Demodulator flt cfg f) = []"
  by (simp_all add: Demodulator_def)

lemma registry_ok_dict_set:
  assumes "registry_ok reg"
  shows "registry_ok (dict_set f (Demodulator flt cfg f) reg)"
  using assms
proof (induction reg)
  case Nil
  then show ?case by (simp add: registry_ok_def Demodulator_fields)
next
  case (Cons a reg)
  obtain k d where a: "a = (k, d)" by (cases a)
  from Cons.prems have tl: "registry_ok reg"
    by (simp add: registry_ok_def a)
  show ?case
  proof (cases "k = f")
    case True
    with Cons.prems show ?thesis
      by (simp add: registry_ok_def a Demodulator_fields)
  next
    case False
    from Cons.IH [OF tl] Cons.prems False show ?thesis
      by (auto simp: registry_ok_def a dict_set_keys split: if_splits)
  qed
qed

lemma registry_ok_startup:
  "registry_ok reg \<Longrightarrow> registry_ok (fold (\<lambda>f d. dict_set f (Demodulator flt cfg f) d) freqs reg)"
  by (induction freqs arbitrary: reg) (simp_all add: registry_ok_dict_set)

lemma registry_ok_distinct_freq:
  assumes "registry_ok reg"
  shows "distinct (map (freq \<circ> snd) reg)"
proof -
  from assms have "map fst (map (\<lambda>(k, d). (freq d, lower_freq d, higher_freq d)) reg)
      = map fst (map (\<lambda>(k, d). (k, k - CHANNEL_SPACING div 2, k + CHANNEL_SPACING div 2)) reg)"
    by (simp only: registry_ok_def)
  then have "\<forall>x\<in>set reg. freq (snd x) = fst x"
    by (simp add: o_def split_def)
  then have "map (freq \<circ> snd) reg = map fst reg"
    by simp
  with assms show ?thesis
    by (simp only: registry_ok_def)
qed

lemma registry_ok_within_own_key:
  assumes "registry_ok reg" and "(k, d) \<in> set reg"
  shows "is_within d k"
  using assms
proof (induction reg)
  case Nil
  then show ?case by simp
next
  case (Cons a reg)
  obtain k' d' where a: "a = (k', d')" by (cases a)
  from Cons.prems(1) have tl: "registry_ok reg"
    and hd: "lower_freq d' = k' - CHANNEL_SPACING div 2" "higher_freq d' = k' + CHANNEL_SPACING div 2"
    by (simp_all add: registry_ok_def a)
  show ?case
  proof (cases "(k, d) = (k', d')")
    case True
    with hd show ?thesis
      by (simp add: is_within_def CHANNEL_SPACING_def)
  next
    case False
    with Cons.prems(2) a have "(k, d) \<in> set reg" by auto
    from Cons.IH [OF tl this] show ?thesis .
  qed
qed

lemma not_within_fresh:
  assumes "registry_ok reg" and "\<not> list_ex (\<lambda>(k, d). is_within d f) reg"
  shows "f \<notin> fst ` set reg"
proof
  assume "f \<in> fst ` set reg"
  then obtain d where "(f, d) \<in> set reg" by auto
  with registry_ok_within_own_key [OF assms(1) this] assms(2) show False
    by (auto simp: list_ex_iff)
qed

lemma registry_ok_map_queue:
  assumes "registry_ok reg"
    and "\<And>d. freq (g d) = freq d" "\<And>d. lower_freq (g d) = lower_freq d"
    and "\<And>d. higher_freq (g d) = higher_freq d"
  shows "registry_ok (map (\<lambda>(k, d). (k, g d)) reg)"
proof -
  have "map fst (map (\<lambda>(k, d). (k, g d)) reg) = map fst reg"
    by (simp add: o_def split_def)
  moreover have "map (\<lambda>(k, d). (freq d, lower_freq d, higher_freq d)) (map (\<lambda>(k, d). (k, g d)) reg)
      = map (\<lambda>(k, d). (freq d, lower_freq d, higher_freq d)) reg"
    by (simp add: o_def split_def assms(2-4))
  moreover have "map (\<lambda>(k, d). (k, k - CHANNEL_SPACING div 2, k + CHANNEL_SPACING div 2))
          (map (\<lambda>(k, d). (k, g d)) reg)
      = map (\<lambda>(k, d). (k, k - CHANNEL_SPACING div 2, k + CHANNEL_SPACING div 2)) reg"
    by (simp add: o_def split_def)
  ultimately show ?thesis
    using assms(1) by (simp only: registry_ok_def)
qed

lemma fa_ingest_cases:
  assumes "fa_ingest flt welch cfg iq st = Inr st'"
  shows "threshold st' = threshold st"
    and "fa_queue st' = fa_queue st"
    and "demodulators st' =
           (case detected welch cfg iq (threshold st) of
              None \<Rightarrow> demodulators st
            | Some (f, p) \<Rightarrow>
                if list_ex (\<lambda>(k, d). is_within d f) (demodulators st) then demodulators st
                else dict_set f (Demodulator flt cfg f) (demodulators st))"
  using assms
  by (auto simp: fa_ingest_def detected_def Let_def split: prod.splits sum.splits if_splits)

lemma startup_registry:
  assumes "startup flt welch cfg freqs sig io0 = Inr st"
  shows "demodulators st = fold (\<lambda>f d. dict_set f (Demodulator flt cfg f) d) freqs []"
    and "\<exists>m sd io1. get_average_noise welch cfg io0 = Inr ((m, sd), io1)
           \<and> threshold st = m + THRESH_FACTOR * sd"
  using assms by (auto simp: startup_def Let_def split: sum.splits prod.splits option.splits)

lemma main_iteration_registry:
  assumes "main_iteration cfg st = Inr st1"
  shows "\<exists>iq. demodulators st1 = map (\<lambda>(k, d). (k, ingest iq d)) (demodulators st)"
    and "threshold st1 = threshold st"
  using assms by (auto simp: main_iteration_def split: sum.splits prod.splits)

lemma is_within_Demodulator:
  "is_within (Demodulator flt cfg k) f \<longleftrightarrow> k - 6250 < f \<and> f \<le> k + 6250"
  by (simp add: is_within_def Demodulator_def CHANNEL_SPACING_def)

lemma registry_ok_within_interval:
  assumes "registry_ok reg"
  shows "list_ex (\<lambda>(k, d). is_within d f) reg
       = list_ex (\<lambda>c. c - 6250 < f \<and> f \<le> c + 6250) (map (freq \<circ> snd) reg)"
  using assms
proof (induction reg)
  case Nil
  show ?case by simp
next
  case (Cons a reg)
  obtain k d where a: "a = (k, d)" by (cases a)
  from Cons.prems have tl: "registry_ok reg"
    and hd: "freq d = k" "lower_freq d = k - CHANNEL_SPACING div 2"
      "higher_freq d = k + CHANNEL_SPACING div 2"
    by (simp_all add: registry_ok_def a)
  have "is_within d f \<longleftrightarrow> freq d - 6250 < f \<and> f \<le> freq d + 6250"
    by (simp add: is_within_def hd CHANNEL_SPACING_def)
  with Cons.IH [OF tl] show ?case
    by (simp add: a)
qed

text \<open>
  C5. The registry built at start-up is well formed, and the scanner, an iteration of the
  ingest loop and the closing of the queues keep it so; a well-formed registry holds no
  two channels with one frequency. A channel built at the frequency \<open>k\<close> contains \<open>f\<close>
  exactly when \<open>k - 6250 < f \<le> k + 6250\<close>, half of \<open>CHANNEL_SPACING = 12500\<close> on either
  side, open below and closed above. After a scan that returns, the registry is the old
  one when nothing was detected or when the detected frequency \<open>g\<close> lies in the interval
  \<open>(c - 6250, c + 6250]\<close> of the frequency \<open>c\<close> of a channel of the registry, and
  otherwise the old one with the new channel for \<open>g\<close> appended.
\<close>

theorem registry_unique_and_insertion:
  "(startup flt welch cfg freqs sig io0 = Inr st0 \<longrightarrow>
      registry_ok (demodulators st0) \<and> distinct (map (freq \<circ> snd) (demodulators st0)))
   \<and> (is_within (Demodulator flt cfg k) f \<longleftrightarrow> k - 6250 < f \<and> f \<le> k + 6250)
   \<and> (registry_ok (demodulators st) \<and> fa_ingest flt welch cfg iq st = Inr st' \<longrightarrow>
        registry_ok (demodulators st') \<and> distinct (map (freq \<circ> snd) (demodulators st'))
        \<and> demodulators st' =
            (case detected welch cfg iq (threshold st) of
               None \<Rightarrow> demodulators st
             | Some (g, p) \<Rightarrow>
                 if list_ex (\<lambda>c. c - 6250 < g \<and> g \<le> c + 6250)
                      (map (freq \<circ> snd) (demodulators st))
                 then demodulators st
                 else demodulators st @ [(g, Demodulator flt cfg g)]))
   \<and> (registry_ok (demodulators st) \<and> main_iteration cfg st = Inr st1 \<longrightarrow>
        registry_ok (demodulators st1))
   \<and> (registry_ok (demodulators st) \<longrightarrow> registry_ok (demodulators (close_queues st)))"
proof (intro conjI impI)
  assume "startup flt welch cfg freqs sig io0 = Inr st0"
  from startup_registry(1) [OF this] show ok0: "registry_ok (demodulators st0)"
    by (simp add: registry_ok_startup registry_ok_Nil)
  from registry_ok_distinct_freq [OF ok0] show "distinct (map (freq \<circ> snd) (demodulators st0))" .
next
  show "is_within (Demodulator flt cfg k) f \<longleftrightarrow> k - 6250 < f \<and> f \<le> k + 6250"
    by (rule is_within_Demodulator)
next
  assume a: "registry_ok (demodulators st) \<and> fa_ingest flt welch cfg iq st = Inr st'"
  then have ok: "registry_ok (demodulators st)" and run: "fa_ingest flt welch cfg iq st = Inr st'"
    by simp_all
  note reg = fa_ingest_cases(3) [OF run]
  note iv = registry_ok_within_interval [OF ok]
  show ins: "demodulators st' =
            (case detected welch cfg iq (threshold st) of
               None \<Rightarrow> demodulators st
             | Some (g, p) \<Rightarrow>
                 if list_ex (\<lambda>c. c - 6250 < g \<and> g \<le> c + 6250)
                      (map (freq \<circ> snd) (demodulators st))
                 then demodulators st
                 else demodulators st @ [(g, Demodulator flt cfg g)])"
  proof (cases "detected welch cfg iq (threshold st)")
    case None
    with reg show ?thesis by simp
  next
    case (Some gp)
    obtain g p where gp: "gp = (g, p)" by (cases gp)
    show ?thesis
    proof (cases "list_ex (\<lambda>(k, d). is_within d g) (demodulators st)")
      case True
      with reg Some gp iv [of g] show ?thesis by simp
    next
      case False
      from not_within_fresh [OF ok False]
      have "dict_set g (Demodulator flt cfg g) (demodulators st)
          = demodulators st @ [(g, Demodulator flt cfg g)]"
        by (rule dict_set_fresh)
      with reg Some gp False iv [of g] show ?thesis by simp
    qed
  qed
  show ok': "registry_ok (demodulators st')"
  proof (cases "detected welch cfg iq (threshold st)")
    case None
    with reg ok show ?thesis by simp
  next
    case (Some gp)
    obtain g p where gp: "gp = (g, p)" by (cases gp)
    from reg Some gp ok registry_ok_dict_set [OF ok, of g flt cfg] show ?thesis
      by (simp split: if_splits)
  qed
  from registry_ok_distinct_freq [OF ok'] show "distinct (map (freq \<circ> snd) (demodulators st'))" .
next
  assume a: "registry_ok (demodulators st) \<and> main_iteration cfg st = Inr st1"
  then obtain iq' where "demodulators st1 = map (\<lambda>(k, d). (k, ingest iq' d)) (demodulators st)"
    using main_iteration_registry(1) by blast
  with a show "registry_ok (demodulators st1)"
    by (simp add: registry_ok_map_queue ingest_def)
next
  assume "registry_ok (demodulators st)"
  then show "registry_ok (demodulators (close_queues st))"
    by (simp add: close_queues_def registry_ok_map_queue close_queue_def)
qed

subsection \<open>Noise measurement and threshold\<close>

lemma noise_snapshots_last:
  "noise_snapshots welch cfg (Suc n) acc S io0 =
     (case noise_snapshots welch cfg n acc S io0 of
        Inl e \<Rightarrow> Inl e
      | Inr ((t, _), io1) \<Rightarrow>
          (case read_samples_convert welch cfg io1 of
             Inl e \<Rightarrow> Inl e
           | Inr ((_, S1), io2) \<Rightarrow> Inr ((t @ S1, Some S1), io2)))"
proof (induction n arbitrary: acc S io0)
  case 0
  show ?case by (simp split: sum.splits prod.splits)
next
  case (Suc n)
  show ?case
  proof (cases "read_samples_convert welch cfg io0")
    case (Inl e)
    then show ?thesis by simp
  next
    case (Inr r)
    obtain f S1 io1 where r: "r = ((f, S1), io1)"
      by (cases r) auto
    have L: "noise_snapshots welch cfg (Suc (Suc n)) acc S io0
           = noise_snapshots welch cfg (Suc n) (acc @ S1) (Some S1) io1"
      using Inr r by simp
    have R: "noise_snapshots welch cfg (Suc n) acc S io0
           = noise_snapshots welch cfg n (acc @ S1) (Some S1) io1"
      using Inr r by simp
    show ?thesis
      unfolding L R by (rule Suc.IH)
  qed
qed

lemma get_average_noise_final:
  assumes "get_average_noise welch cfg io0 = Inr ((m, sd), io1)"
  shows "\<exists>acc prev io4 f S5.
           noise_snapshots welch cfg 4 [] None io0 = Inr ((acc, prev), io4)
           \<and> read_samples_convert welch cfg io4 = Inr ((f, S5), io1)
           \<and> m = np_mean S5 \<and> sd = np_std S5"
proof -
  have five: "N_NOISE = Suc 4"
    by (simp add: N_NOISE_def)
  from assms show ?thesis
    unfolding get_average_noise_def five noise_snapshots_last
    by (auto split: sum.splits prod.splits option.splits)
qed

lemma main_loop_threshold:
  assumes ret: "main_loop cfg st = Some r"
  shows "\<forall>st'. r = Interrupted st' \<longrightarrow> threshold st' = threshold st"
proof (rule main_loop.raw_induct
    [of "\<lambda>c s r. \<forall>s'. r = Interrupted s' \<longrightarrow> threshold s' = threshold s", OF _ ret])
  fix loop :: "config \<Rightarrow> 'a program \<Rightarrow> 'a loop_end option" and c s r
  assume IH: "\<And>c s r. loop c s = Some r \<Longrightarrow> \<forall>s'. r = Interrupted s' \<longrightarrow> threshold s' = threshold s"
    and step: "(if sigint_after s = Some 0 then Some (Interrupted s)
      else case main_iteration c s of Inl e \<Rightarrow> Some (Raised e)
           | Inr st1 \<Rightarrow>
               loop c (st1\<lparr>sigint_after := map_option (\<lambda>n. n - 1) (sigint_after st1)\<rparr>)) =
     Some r"
  show "\<forall>s'. r = Interrupted s' \<longrightarrow> threshold s' = threshold s"
  proof (cases "sigint_after s = Some 0")
    case True
    with step show ?thesis by auto
  next
    case False
    show ?thesis
    proof (cases "main_iteration c s")
      case (Inl e)
      with step False show ?thesis by auto
    next
      case (Inr s1)
      with step False
      have "loop c (s1\<lparr>sigint_after := map_option (\<lambda>n. n - 1) (sigint_after s1)\<rparr>) = Some r"
        by simp
      from IH [OF this] main_iteration_registry(2) [OF Inr] show ?thesis
        by simp
    qed
  qed
qed

text \<open>
  C4. When start-up succeeds, the threshold is \<open>mean + 9 * std\<close> of the log-power bins
  of the fifth snapshot, the one read after four snapshots have been taken; the values
  accumulated from the first four do not enter. The ingest loop, the scanner and the
  closing of the queues leave the threshold as it is.
\<close>

theorem threshold_from_final_snapshot:
  "(startup flt welch cfg freqs sig io0 = Inr st \<longrightarrow>
      (\<exists>acc prev io4 f S5 io5.
         noise_snapshots welch cfg 4 [] None io0 = Inr ((acc, prev), io4)
         \<and> read_samples_convert welch cfg io4 = Inr ((f, S5), io5)
         \<and> threshold st = np_mean S5 + 9 * np_std S5))
   \<and> (main_loop cfg st = Some (Interrupted st1) \<longrightarrow> threshold st1 = threshold st)
   \<and> (fa_ingest flt welch cfg iq st = Inr st2 \<longrightarrow> threshold st2 = threshold st)
   \<and> threshold (close_queues st) = threshold st"
proof (intro conjI impI)
  assume "startup flt welch cfg freqs sig io0 = Inr st"
  from startup_registry(2) [OF this] obtain m sd io5
    where g: "get_average_noise welch cfg io0 = Inr ((m, sd), io5)"
      and t: "threshold st = m + THRESH_FACTOR * sd"
    by blast
  from get_average_noise_final [OF g] t
  show "\<exists>acc prev io4 f S5 io5.
         noise_snapshots welch cfg 4 [] None io0 = Inr ((acc, prev), io4)
         \<and> read_samples_convert welch cfg io4 = Inr ((f, S5), io5)
         \<and> threshold st = np_mean S5 + 9 * np_std S5"
    by (auto simp: THRESH_FACTOR_def)
next
  assume "main_loop cfg st = Some (Interrupted st1)"
  from main_loop_threshold [OF this] show "threshold st1 = threshold st"
    by simp
next
  assume "fa_ingest flt welch cfg iq st = Inr st2"
  then show "threshold st2 = threshold st"
    by (rule fa_ingest_cases(1))
next
  show "threshold (close_queues st) = threshold st"
    by (simp add: close_queues_def)
qed

lemma example_read_first:
  "read_samples_convert example_welch example_config \<lparr>stdin = [1, 2, 3, 4], records = rs\<rparr>
     = Inr (([145, 581 / 4], [0, 2]), \<lparr>stdin = [], records = rs\<rparr>)"
  by (simp add: read_samples_convert_def ingest_data_def stdin_read_def INGEST_SIZE_def
      example_config_def convert2hist_def example_welch_def)

lemma example_read_eof:
  "read_samples_convert example_welch example_config \<lparr>stdin = [], records = rs\<rparr>
     = Inr (([145, 581 / 4], [0, 0]),
            \<lparr>stdin = [], records = rs @
               [LogError ''Something went wrong while reading data. Check if device is present.'']\<rparr>)"
  by (simp add: read_samples_convert_def ingest_data_def stdin_read_def INGEST_SIZE_def
      example_config_def convert2hist_def example_welch_def)

lemma example_four_snapshots:
  "noise_snapshots example_welch example_config 4 [] None \<lparr>stdin = [1, 2, 3, 4], records = []\<rparr>
     = Inr (([0, 2, 0, 0, 0, 0, 0, 0], Some [0, 0]),
            \<lparr>stdin = [], records = replicate 3
               (LogError ''Something went wrong while reading data. Check if device is present.'')\<rparr>)"
  by (simp add: eval_nat_numeral example_read_first example_read_eof)

lemma example_noise:
  "get_average_noise example_welch example_config \<lparr>stdin = [1, 2, 3, 4], records = []\<rparr>
     = Inr ((0, 0),
            \<lparr>stdin = [], records = replicate 4
               (LogError ''Something went wrong while reading data. Check if device is present.'')\<rparr>)"
  by (simp add: get_average_noise_def N_NOISE_def eval_nat_numeral example_read_first
      example_read_eof np_mean_def np_std_def)

lemma example_startup:
  "startup example_filters example_welch example_config [145250000] sig
       \<lparr>stdin = [1, 2, 3, 4], records = []\<rparr>
     = Inr ((example_program [] sig)
            \<lparr>iostate := \<lparr>stdin = [], records = replicate 4
               (LogError ''Something went wrong while reading data. Check if device is present.'')\<rparr>,
             threshold := 0\<rparr>)"
proof -
  have "check_arguments example_config [145250000] = None"
    by (simp add: check_arguments_def py_exact_def example_config_def IF_RATE_def AUDIO_RATE_def)
  then show ?thesis
    by (simp add: startup_def example_noise example_program_def example_demodulator_def)
qed

lemma example_detected:
  "detected example_welch example_config (iq_of_bytes [1, 2, 3, 4]) 0 = Some (145250000, 2)"
  by (simp add: detected_def convert2hist_def example_welch_def example_config_def argmax_def
      astype_int_def)

lemma example_scan_known:
  "fa_ingest example_filters example_welch example_config (iq_of_bytes [1, 2, 3, 4])
       ((example_program [] sig)\<lparr>iostate := ios, threshold := 0\<rparr>)
     = Inr ((example_program [] sig)\<lparr>iostate := ios, threshold := 0,
              out_freqs := [(145250000, 2)]\<rparr>)"
proof -
  have "is_within example_demodulator 145250000"
    by (simp add: is_within_def example_demodulator_def Demodulator_def CHANNEL_SPACING_def)
  then show ?thesis
    by (simp add: fa_ingest_def convert2hist_def example_welch_def example_config_def argmax_def
        astype_int_def example_program_def)
qed

lemma example_scan_new:
  "fa_ingest example_filters example_welch example_config (iq_of_bytes [1, 2, 3, 4])
       ((example_program [] sig)\<lparr>iostate := ios, threshold := 0, demodulators := []\<rparr>)
     = Inr ((example_program [] sig)\<lparr>iostate := ios, threshold := 0,
              demodulators := [(145250000, Demodulator example_filters example_config 145250000)],
              out_freqs := [(145250000, 2)]\<rparr>)"
  by (simp add: fa_ingest_def convert2hist_def example_welch_def argmax_def
        astype_int_def example_program_def)
     (simp add: example_config_def)

theorem threshold_from_final_snapshot_witness:
  "startup example_filters example_welch example_config [145250000] (Some 1)
       \<lparr>stdin = [1, 2, 3, 4], records = []\<rparr>
     = Inr ((example_program [] (Some 1))
            \<lparr>iostate := \<lparr>stdin = [], records = replicate 4
               (LogError ''Something went wrong while reading data. Check if device is present.'')\<rparr>,
             threshold := 0\<rparr>)
   \<and> noise_snapshots example_welch example_config 4 [] None \<lparr>stdin = [1, 2, 3, 4], records = []\<rparr>
     = Inr (([0, 2, 0, 0, 0, 0, 0, 0], Some [0, 0]),
            \<lparr>stdin = [], records = replicate 3
               (LogError ''Something went wrong while reading data. Check if device is present.'')\<rparr>)
   \<and> threshold ((example_program [] (Some 1))
            \<lparr>iostate := \<lparr>stdin = [], records = replicate 4
               (LogError ''Something went wrong while reading data. Check if device is present.'')\<rparr>,
             threshold := 0\<rparr>) = np_mean [0, 0] + 9 * np_std [0, 0]
   \<and> np_mean [0, 2, 0, 0, 0, 0, 0, 0, 0, 0] = 1 / 5
   \<and> main_loop example_config ((example_program [] (Some 1))
            \<lparr>iostate := \<lparr>stdin = [], records = replicate 4
               (LogError ''Something went wrong while reading data. Check if device is present.'')\<rparr>,
             threshold := 0\<rparr>)
     = Some (Interrupted ((example_program [] (Some 0))
            \<lparr>iostate := \<lparr>stdin = [], records = replicate 5
               (LogError ''Something went wrong while reading data. Check if device is present.'')\<rparr>,
             threshold := 0,
             demodulators := [(145250000, ingest [] example_demodulator)],
             fa_queue := [Some []]\<rparr>))
   \<and> fa_ingest example_filters example_welch example_config (iq_of_bytes [1, 2, 3, 4])
       ((example_program [] (Some 1))
            \<lparr>iostate := \<lparr>stdin = [], records = replicate 4
               (LogError ''Something went wrong while reading data. Check if device is present.'')\<rparr>,
             threshold := 0\<rparr>)
     = Inr ((example_program [] (Some 1))
            \<lparr>iostate := \<lparr>stdin = [], records = replicate 4
               (LogError ''Something went wrong while reading data. Check if device is present.'')\<rparr>,
             threshold := 0, out_freqs := [(145250000, 2)]\<rparr>)
   \<and> threshold ((example_program [] (Some 0))
            \<lparr>iostate := \<lparr>stdin = [], records = replicate 5
               (LogError ''Something went wrong while reading data. Check if device is present.'')\<rparr>,
             threshold := 0,
             demodulators := [(145250000, ingest [] example_demodulator)],
             fa_queue := [Some []]\<rparr>)
     = threshold ((example_program [] (Some 1))
            \<lparr>iostate := \<lparr>stdin = [], records = replicate 4
               (LogError ''Something went wrong while reading data. Check if device is present.'')\<rparr>,
             threshold := 0\<rparr>)"
proof -
  let ?E = "LogError ''Something went wrong while reading data. Check if device is present.''"
  let ?X = "(example_program [] (Some 1))
            \<lparr>iostate := \<lparr>stdin = [], records = replicate 4 ?E\<rparr>, threshold := 0\<rparr>"
  let ?X1 = "(example_program [] (Some 0))
            \<lparr>iostate := \<lparr>stdin = [], records = replicate 5 ?E\<rparr>, threshold := 0,
             demodulators := [(145250000, ingest [] example_demodulator)],
             fa_queue := [Some []]\<rparr>"
  let ?X2 = "(example_program [] (Some 1))
            \<lparr>iostate := \<lparr>stdin = [], records = replicate 4 ?E\<rparr>, threshold := 0,
             out_freqs := [(145250000, 2)]\<rparr>"
  note start = example_startup [where sig = "Some 1"]
  have it: "main_iteration example_config ?X = Inr (?X1\<lparr>sigint_after := Some 1\<rparr>)"
    by (subst main_iteration_eof) (simp_all add: example_program_def eval_nat_numeral)
  have stop: "main_loop example_config ?X1 = Some (Interrupted ?X1)"
    by (subst main_loop.simps) (simp add: example_program_def)
  have ne: "sigint_after ?X \<noteq> Some 0"
    by (simp add: example_program_def)
  have upd: "(?X1\<lparr>sigint_after := Some 1\<rparr>)\<lparr>sigint_after :=
               map_option (\<lambda>n. n - 1) (sigint_after (?X1\<lparr>sigint_after := Some 1\<rparr>))\<rparr> = ?X1"
    by (simp add: example_program_def)
  have loop: "main_loop example_config ?X = Some (Interrupted ?X1)"
    by (subst main_loop.simps) (simp only: ne if_False it sum.case upd stop)
  note scan = example_scan_known [where sig = "Some 1"
      and ios = "\<lparr>stdin = [], records = replicate 4 ?E\<rparr>"]
  have stats: "np_mean [0, 0] + 9 * np_std [0, 0] = 0" "np_mean [0, 2, 0, 0, 0, 0, 0, 0, 0, 0] = 1 / 5"
    by (simp_all add: np_mean_def np_std_def)
  have thr: "threshold ?X = np_mean [0, 0] + 9 * np_std [0, 0]"
    by (simp add: stats)
  from threshold_from_final_snapshot [of example_filters example_welch example_config
         "[145250000]" "Some 1" "\<lparr>stdin = [1, 2, 3, 4], records = []\<rparr>" ?X ?X1
         "iq_of_bytes [1, 2, 3, 4]" ?X2] start loop scan
  have frame: "threshold ?X1 = threshold ?X"
    by blast
  from start example_four_snapshots thr stats(2) loop scan frame show ?thesis
    by (intro conjI)
qed

text \<open>
  Scans of the example at the two edges of a channel, inside it and just above it, on
  registries of one and of two channels, and a start-up whose command line names one
  frequency twice.
\<close>

lemma example_hist_at:
  "convert2hist (example_welch_at q) example_config (iq_of_bytes [1, 2, 3, 4]) = ([145, q + 145], [0, 2])"
  by (simp add: convert2hist_def example_welch_at_def example_config_def)

lemma example_detected_at:
  assumes "astype_int ((q + 145) * 1000000) = g"
  shows "detected (example_welch_at q) example_config (iq_of_bytes [1, 2, 3, 4]) 0 = Some (g, 2)"
  using assms by (simp add: detected_def example_hist_at argmax_def del: iq_of_bytes.simps)

lemma example_scan_at:
  assumes "astype_int ((q + 145) * 1000000) = g"
  shows "fa_ingest example_filters (example_welch_at q) example_config (iq_of_bytes [1, 2, 3, 4])
           ((example_program [] sig)\<lparr>threshold := 0, demodulators := reg\<rparr>)
       = Inr ((example_program [] sig)
              \<lparr>threshold := 0,
               demodulators := (if list_ex (\<lambda>(k, d). is_within d g) reg then reg
                                else dict_set g (Demodulator example_filters example_config g) reg),
               out_freqs := [(g, 2)]\<rparr>)"
  using assms
  by (simp add: fa_ingest_def example_hist_at argmax_def example_program_def
      del: iq_of_bytes.simps)

lemma example_startup_three:
  "startup example_filters example_welch example_config [145250000, 145100000, 145250000] sig
       \<lparr>stdin = [1, 2, 3, 4], records = []\<rparr>
     = Inr ((example_program [] sig)
            \<lparr>iostate := \<lparr>stdin = [], records = replicate 4
               (LogError ''Something went wrong while reading data. Check if device is present.'')\<rparr>,
             threshold := 0,
             demodulators := [(145250000, example_demodulator),
                              (145100000, Demodulator example_filters example_config 145100000)]\<rparr>)"
proof -
  have "check_arguments example_config [145250000, 145100000, 145250000] = None"
    by (simp add: check_arguments_def py_exact_def example_config_def IF_RATE_def AUDIO_RATE_def)
  then show ?thesis
    by (simp add: startup_def example_noise example_program_def example_demodulator_def)
qed

lemma example_scan_case:
  assumes g: "astype_int ((q + 145) * 1000000) = g"
    and r: "reg' = (if list_ex (\<lambda>(k, d). is_within d g) reg then reg
                    else dict_set g (example_channel g) reg)"
  shows "fa_ingest example_filters (example_welch_at q) example_config (iq_of_bytes [1, 2, 3, 4])
           (example_scanning reg)
       = Inr ((example_scanning reg')\<lparr>out_freqs := [(g, 2)]\<rparr>)"
  unfolding example_scanning_def r example_channel_def
  using example_scan_at [OF g, where sig = None and reg = reg] by simp

lemma example_within:
  "is_within example_demodulator f \<longleftrightarrow> 145243750 < f \<and> f \<le> 145256250"
  "is_within (example_channel k) f \<longleftrightarrow> k - 6250 < f \<and> f \<le> k + 6250"
  by (simp_all add: example_demodulator_def example_channel_def is_within_Demodulator)

theorem registry_unique_and_insertion_witness:
  "startup example_filters example_welch example_config [145250000, 145100000, 145250000] None
       \<lparr>stdin = [1, 2, 3, 4], records = []\<rparr>
     = Inr ((example_program [] None)
            \<lparr>iostate := \<lparr>stdin = [], records = replicate 4
               (LogError ''Something went wrong while reading data. Check if device is present.'')\<rparr>,
             threshold := 0,
             demodulators := [(145250000, example_demodulator),
                              (145100000, Demodulator example_filters example_config 145100000)]\<rparr>)
   \<and> registry_ok [(145250000, example_demodulator),
                   (145100000, Demodulator example_filters example_config 145100000)]
   \<and> distinct (map (freq \<circ> snd)
        [(145250000 :: int, example_demodulator),
         (145100000, Demodulator example_filters example_config 145100000)])
   \<and> is_within (Demodulator example_filters example_config 145250000) 145256250
   \<and> \<not> is_within (Demodulator example_filters example_config 145250000) 145243750
   \<and> detected (example_welch_at (41 / 160)) example_config (iq_of_bytes [1, 2, 3, 4]) 0
       = Some (145256250, 2)
   \<and> fa_ingest example_filters (example_welch_at (41 / 160)) example_config
         (iq_of_bytes [1, 2, 3, 4]) (example_scanning [(145250000, example_demodulator)])
       = Inr ((example_scanning [(145250000, example_demodulator)])
              \<lparr>out_freqs := [(145256250, 2)]\<rparr>)
   \<and> detected (example_welch_at (39 / 160)) example_config (iq_of_bytes [1, 2, 3, 4]) 0
       = Some (145243750, 2)
   \<and> fa_ingest example_filters (example_welch_at (39 / 160)) example_config
         (iq_of_bytes [1, 2, 3, 4]) (example_scanning [(145250000, example_demodulator)])
       = Inr ((example_scanning [(145250000, example_demodulator),
                                 (145243750, example_channel 145243750)])
              \<lparr>out_freqs := [(145243750, 2)]\<rparr>)
   \<and> registry_ok [(145250000, example_demodulator), (145243750, example_channel 145243750)]
   \<and> distinct (map (freq \<circ> snd)
        [(145250000 :: int, example_demodulator), (145243750, example_channel 145243750)])
   \<and> fa_ingest example_filters (example_welch_at (251 / 1000)) example_config
         (iq_of_bytes [1, 2, 3, 4]) (example_scanning [(145250000, example_demodulator)])
       = Inr ((example_scanning [(145250000, example_demodulator)])
              \<lparr>out_freqs := [(145251000, 2)]\<rparr>)
   \<and> fa_ingest example_filters (example_welch_at (256251 / 1000000)) example_config
         (iq_of_bytes [1, 2, 3, 4]) (example_scanning [(145250000, example_demodulator)])
       = Inr ((example_scanning [(145250000, example_demodulator),
                                 (145256251, example_channel 145256251)])
              \<lparr>out_freqs := [(145256251, 2)]\<rparr>)
   \<and> fa_ingest example_filters (example_welch_at (237501 / 1000000)) example_config
         (iq_of_bytes [1, 2, 3, 4])
         (example_scanning [(145250000, example_demodulator), (145243750, example_channel 145243750)])
       = Inr ((example_scanning [(145250000, example_demodulator),
                                 (145243750, example_channel 145243750)])
              \<lparr>out_freqs := [(145237501, 2)]\<rparr>)
   \<and> fa_ingest example_filters (example_welch_at (2375 / 10000)) example_config
         (iq_of_bytes [1, 2, 3, 4])
         (example_scanning [(145250000, example_demodulator), (145243750, example_channel 145243750)])
       = Inr ((example_scanning [(145250000, example_demodulator),
                                 (145243750, example_channel 145243750),
                                 (145237500, example_channel 145237500)])
              \<lparr>out_freqs := [(145237500, 2)]\<rparr>)
   \<and> registry_ok [(145250000, example_demodulator), (145243750, example_channel 145243750),
                   (145237500, example_channel 145237500)]
   \<and> distinct (map (freq \<circ> snd)
        [(145250000 :: int, example_demodulator), (145243750, example_channel 145243750),
         (145237500, example_channel 145237500)])
   \<and> main_iteration example_config (example_program [] None)
     = Inr ((example_program [] None)
          \<lparr>iostate := \<lparr>stdin = [], records =
             [LogError ''Something went wrong while reading data. Check if device is present.'']\<rparr>,
           demodulators := [(145250000, ingest [] example_demodulator)],
           fa_queue := [Some []]\<rparr>)
   \<and> registry_ok [(145250000, ingest [] example_demodulator)]
   \<and> registry_ok (demodulators (close_queues (example_program [] None)))"
proof -
  let ?E = "LogError ''Something went wrong while reading data. Check if device is present.''"
  let ?iq = "iq_of_bytes [1, 2, 3, 4]"
  let ?R0 = "[(145250000 :: int, example_demodulator),
              (145100000, Demodulator example_filters example_config 145100000)]"
  let ?R1 = "[(145250000 :: int, example_demodulator)]"
  let ?R2 = "[(145250000 :: int, example_demodulator), (145243750, example_channel 145243750)]"
  let ?R3 = "[(145250000 :: int, example_demodulator), (145243750, example_channel 145243750),
              (145237500, example_channel 145237500)]"
  let ?X = "(example_program [] None)
            \<lparr>iostate := \<lparr>stdin = [], records = replicate 4 ?E\<rparr>, threshold := 0,
             demodulators := ?R0\<rparr>"
  let ?M = "(example_program [] None)
          \<lparr>iostate := \<lparr>stdin = [], records = [?E]\<rparr>,
           demodulators := [(145250000, ingest [] example_demodulator)],
           fa_queue := [Some []]\<rparr>"
  note start = example_startup_three [where sig = None]
  have da: "detected (example_welch_at (41 / 160)) example_config ?iq 0 = Some (145256250, 2)"
    by (rule example_detected_at) (simp add: astype_int_def)
  have db: "detected (example_welch_at (39 / 160)) example_config ?iq 0 = Some (145243750, 2)"
    by (rule example_detected_at) (simp add: astype_int_def)
  have sa: "fa_ingest example_filters (example_welch_at (41 / 160)) example_config ?iq
              (example_scanning ?R1)
          = Inr ((example_scanning ?R1)\<lparr>out_freqs := [(145256250, 2)]\<rparr>)"
    by (rule example_scan_case) (simp_all add: astype_int_def example_within)
  have sb: "fa_ingest example_filters (example_welch_at (39 / 160)) example_config ?iq
              (example_scanning ?R1)
          = Inr ((example_scanning ?R2)\<lparr>out_freqs := [(145243750, 2)]\<rparr>)"
    by (rule example_scan_case) (simp_all add: astype_int_def example_within)
  have sc: "fa_ingest example_filters (example_welch_at (251 / 1000)) example_config ?iq
              (example_scanning ?R1)
          = Inr ((example_scanning ?R1)\<lparr>out_freqs := [(145251000, 2)]\<rparr>)"
    by (rule example_scan_case) (simp_all add: astype_int_def example_within)
  have sd: "fa_ingest example_filters (example_welch_at (256251 / 1000000)) example_config ?iq
              (example_scanning ?R1)
          = Inr ((example_scanning [(145250000, example_demodulator),
                                    (145256251, example_channel 145256251)])
                 \<lparr>out_freqs := [(145256251, 2)]\<rparr>)"
    by (rule example_scan_case) (simp_all add: astype_int_def example_within)
  have se: "fa_ingest example_filters (example_welch_at (237501 / 1000000)) example_config ?iq
              (example_scanning ?R2)
          = Inr ((example_scanning ?R2)\<lparr>out_freqs := [(145237501, 2)]\<rparr>)"
    by (rule example_scan_case) (simp_all add: astype_int_def example_within)
  have sf: "fa_ingest example_filters (example_welch_at (2375 / 10000)) example_config ?iq
              (example_scanning ?R2)
          = Inr ((example_scanning ?R3)\<lparr>out_freqs := [(145237500, 2)]\<rparr>)"
    by (rule example_scan_case) (simp_all add: astype_int_def example_within)
  have it: "main_iteration example_config (example_program [] None) = Inr ?M"
    by (subst main_iteration_eof) (simp_all add: example_program_def)
  have regs: "demodulators ?X = ?R0" "demodulators ?M = [(145250000, ingest [] example_demodulator)]"
    "demodulators (example_program [] None) = ?R1"
    "\<And>reg. demodulators (example_scanning reg) = reg"
    "\<And>reg fs. demodulators ((example_scanning reg)\<lparr>out_freqs := fs\<rparr>) = reg"
    by (simp_all add: example_program_def example_scanning_def)
  note T = registry_unique_and_insertion [where flt = example_filters and cfg = example_config
      and freqs = "[145250000, 145100000, 145250000]" and sig = None
      and ?io0.0 = "\<lparr>stdin = [1, 2, 3, 4], records = []\<rparr>" and ?st0.0 = ?X
      and iq = ?iq and k = 145250000]
  note T_start = T [THEN conjunct1, THEN mp]
  note T_edge = T [THEN conjunct2, THEN conjunct1]
  note T_scan = T [THEN conjunct2, THEN conjunct2, THEN conjunct1, THEN mp, OF conjI]
  note T_iter = T [THEN conjunct2, THEN conjunct2, THEN conjunct2, THEN conjunct1, THEN mp, OF conjI]
  note T_close = T [THEN conjunct2, THEN conjunct2, THEN conjunct2, THEN conjunct2, THEN mp]
  from T_start [OF start]
  have ok0: "registry_ok ?R0" and d0: "distinct (map (freq \<circ> snd) ?R0)"
    by (simp_all only: regs)
  have edge_hi: "is_within (Demodulator example_filters example_config 145250000) 145256250"
    using T_edge [of 145256250] by simp
  have edge_lo: "\<not> is_within (Demodulator example_filters example_config 145250000) 145243750"
    using T_edge [of 145243750] by simp
  have ok1: "registry_ok (demodulators (example_scanning ?R1))"
    unfolding regs by (simp add: registry_ok_def example_demodulator_def Demodulator_def)
  from T_scan [OF ok1 sb, THEN conjunct1] T_scan [OF ok1 sb, THEN conjunct2, THEN conjunct1]
  have ok2: "registry_ok ?R2" and d2: "distinct (map (freq \<circ> snd) ?R2)"
    by (simp_all only: regs)
  have ok2': "registry_ok (demodulators (example_scanning ?R2))"
    using ok2 by (simp only: regs)
  from T_scan [OF ok2' sf, THEN conjunct1] T_scan [OF ok2' sf, THEN conjunct2, THEN conjunct1]
  have ok3: "registry_ok ?R3" and d3: "distinct (map (freq \<circ> snd) ?R3)"
    by (simp_all only: regs)
  have okE: "registry_ok (demodulators (example_program [] None))"
    using ok1 by (simp only: regs)
  from T_iter [OF okE it]
  have okM: "registry_ok [(145250000, ingest [] example_demodulator)]"
    by (simp only: regs)
  from T_close [OF okE]
  have okC: "registry_ok (demodulators (close_queues (example_program [] None)))" .
  from start ok0 d0 edge_hi edge_lo da sa db sb ok2 d2 sc sd se sf ok3 d3 it okM okC
  show ?thesis
    by (intro conjI)
qed

end
